theory Spec2Isabelle
  imports Main
begin

section \<open>Data model\<close>

text \<open>
  The three tables of the application database and the identities held by Clerk.
  Column names are those of the SQL files; a column called \<open>id\<close> or \<open>name\<close> carries
  the table's prefix where the plain word is taken. UUID and BIGSERIAL keys are natural
  numbers drawn from a counter kept beside the table. The timestamp columns are left out:
  no handler reads them. The DECIMAL(10,2) columns of \<open>stock\<close> are integers counting
  hundredths.
\<close>

record user_row =
  user_id :: nat
  clerk_id :: string
  name :: string
  role :: string
  locations :: "string list"

record location_row =
  ml_id :: int
  ml_name :: string
  ml_value :: string
  is_active :: bool

record stock_row =
  stock_id :: nat
  m_location_id :: int
  location :: string
  m_product_id :: string
  product_name :: string
  c_uom_id :: int
  uom_name :: string
  m_product_category_id :: int
  product_category_name :: string
  weight :: int
  sumqtyonhand :: int
  product_type :: string

record public_metadata =
  md_role :: "string option"
  md_locations :: "string list option"

record identity =
  ident_id :: string
  ident_username :: string
  ident_password :: string
  ident_metadata :: public_metadata

text \<open>The row a handler hands to \<open>.from('users').insert(...)\<close>: the key is the database's.\<close>

record new_user =
  nu_clerk_id :: string
  nu_name :: string
  nu_role :: string
  nu_locations :: "string list"

text \<open>
  An \<open>update\<close> payload: a column that the object literal does not carry is \<open>None\<close>.
\<close>

record user_patch =
  p_clerk_id :: "string option"
  p_name :: "string option"
  p_role :: "string option"
  p_locations :: "string list option"

record new_stock =
  ns_m_location_id :: int
  ns_location :: string
  ns_m_product_id :: string
  ns_name :: string
  ns_c_uom_id :: int
  ns_uom_name :: string
  ns_m_product_category_id :: int
  ns_product_category_name :: string
  ns_weight :: int
  ns_sumqtyonhand :: int
  ns_product_type :: string

text \<open>
  Every request that a handler sends to Clerk, to the database or to the stock feed is
  recorded, in order, with what it carried.
\<close>

datatype call =
    ClerkCreateUser string string public_metadata
  | ClerkDeleteUser string
  | ClerkUpdateUserMetadata string public_metadata
  | UsersInsert new_user
  | UsersUpdate string user_patch
  | UsersDelete string
  | LocationsSelect int
  | StockDelete "string list"
  | StockInsert "new_stock list"
  | FeedGet

text \<open>\<open>console.error\<close> and \<open>console.warn\<close> lines (the \<open>console.log\<close> lines are not kept).\<close>

datatype log_line = Err string string | Warn string

record world =
  identities :: "identity list"
  users :: "user_row list"
  users_seq :: nat
  master_locations :: "location_row list"
  stock :: "stock_row list"
  stock_seq :: nat
  calls :: "call list"
  console :: "log_line list"

definition called :: "call \<Rightarrow> world \<Rightarrow> world" where
  "called c w = w\<lparr>calls := calls w @ [c]\<rparr>"

definition logged :: "log_line \<Rightarrow> world \<Rightarrow> world" where
  "logged l w = w\<lparr>console := console w @ [l]\<rparr>"

text \<open>JavaScript truthiness of an optional string: \<open>undefined\<close>, \<open>null\<close> and \<open>''\<close> are falsy.\<close>

fun truthy :: "string option \<Rightarrow> bool" where
  "truthy None = False"
| "truthy (Some s) = (s \<noteq> [])"

section \<open>Row-level security (supabase\_rls\_policies\_fixed.sql, supabase\_stock\_table\_migration.sql)\<close>

text \<open>
  \<open>get_current_user_role()\<close>: the role of the row whose \<open>clerk_id\<close> is the token's
  \<open>sub\<close>, \<open>COALESCE\<close>d to \<open>'NO_ROLE'\<close>. It is SECURITY DEFINER, so it reads the table
  past the policies.
\<close>

definition get_current_user_role :: "world \<Rightarrow> string \<Rightarrow> string" where
  "get_current_user_role w sub =
     (case find (\<lambda>u. clerk_id u = sub) (users w) of
        None \<Rightarrow> ''NO_ROLE''
      | Some u \<Rightarrow> role u)"

text \<open>Policy 1 on \<open>users\<close>, FOR SELECT.\<close>

definition users_select_using :: "world \<Rightarrow> string \<Rightarrow> user_row \<Rightarrow> bool" where
  "users_select_using w sub u \<longleftrightarrow>
     sub = clerk_id u \<or> get_current_user_role w sub = ''SUPERADMIN_ROLE''"

text \<open>Policy 2 on \<open>users\<close>, FOR UPDATE: its USING and its WITH CHECK expressions.\<close>

definition users_update_using :: "world \<Rightarrow> string \<Rightarrow> user_row \<Rightarrow> bool" where
  "users_update_using w sub u \<longleftrightarrow>
     sub = clerk_id u \<or> get_current_user_role w sub = ''SUPERADMIN_ROLE''"

definition users_update_check :: "world \<Rightarrow> string \<Rightarrow> user_row \<Rightarrow> bool" where
  "users_update_check w sub u' \<longleftrightarrow>
     (if get_current_user_role w sub = ''SUPERADMIN_ROLE'' then True
      else sub = clerk_id u')"

definition apply_patch :: "user_patch \<Rightarrow> user_row \<Rightarrow> user_row" where
  "apply_patch p u =
     u\<lparr>clerk_id := (case p_clerk_id p of None \<Rightarrow> clerk_id u | Some v \<Rightarrow> v),
       name := (case p_name p of None \<Rightarrow> name u | Some v \<Rightarrow> v),
       role := (case p_role p of None \<Rightarrow> role u | Some v \<Rightarrow> v),
       locations := (case p_locations p of None \<Rightarrow> locations u | Some v \<Rightarrow> v)\<rparr>"

text \<open>
  \<open>UPDATE users SET ... WHERE clerk_id = target\<close> issued with the caller's token (role
  \<open>authenticated\<close>). The rows it touches are those the WHERE clause selects among the rows
  that pass the SELECT and the UPDATE policies' USING; each new row must pass the UPDATE
  policy's WITH CHECK and, the statement reading the table, the SELECT policy, both
  evaluated before the row is stored, or the whole statement is refused.
\<close>

definition rls_update_users :: "string \<Rightarrow> string \<Rightarrow> user_patch \<Rightarrow> world \<Rightarrow> string + world" where
  "rls_update_users sub target p w =
     (let hit = (\<lambda>u. clerk_id u = target \<and> users_select_using w sub u \<and> users_update_using w sub u)
      in if \<forall>u \<in> set (users w). hit u \<longrightarrow>
              users_update_check w sub (apply_patch p u) \<and> users_select_using w sub (apply_patch p u)
         then Inr (w\<lparr>users := map (\<lambda>u. if hit u then apply_patch p u else u) (users w)\<rparr>)
         else Inl ''new row violates row-level security policy for table users'')"

text \<open>Policy 1 on \<open>master_locations\<close>, FOR SELECT.\<close>

definition locations_select_using :: "world \<Rightarrow> string \<Rightarrow> location_row \<Rightarrow> bool" where
  "locations_select_using w sub ml \<longleftrightarrow>
     is_active ml \<or> get_current_user_role w sub = ''SUPERADMIN_ROLE''"

text \<open>
  The SELECT policies on \<open>stock\<close>, one definition each. The sub-queries of the two
  location-scoped policies read \<open>users\<close> and \<open>master_locations\<close> as the caller, hence
  through those tables' own SELECT policies.
\<close>

definition superadmin_can_view_all_stock :: "world \<Rightarrow> string \<Rightarrow> stock_row \<Rightarrow> bool" where
  "superadmin_can_view_all_stock w sub s \<longleftrightarrow> get_current_user_role w sub = ''SUPERADMIN_ROLE''"

definition bod_can_view_all_stock :: "world \<Rightarrow> string \<Rightarrow> stock_row \<Rightarrow> bool" where
  "bod_can_view_all_stock w sub s \<longleftrightarrow> get_current_user_role w sub = ''BOD_ROLE''"

definition sales_managers_can_view_assigned_location_stock ::
  "world \<Rightarrow> string \<Rightarrow> stock_row \<Rightarrow> bool" where
  "sales_managers_can_view_assigned_location_stock w sub s \<longleftrightarrow>
     get_current_user_role w sub = ''SALES_MANAGER_ROLE''
     \<and> (\<exists>u \<in> set (users w). users_select_using w sub u
            \<and> clerk_id u = sub \<and> location s \<in> set (locations u))
     \<and> (\<exists>ml \<in> set (master_locations w). locations_select_using w sub ml
            \<and> ml_id ml = m_location_id s \<and> is_active ml)"

definition sales_supervisors_can_view_assigned_location_stock ::
  "world \<Rightarrow> string \<Rightarrow> stock_row \<Rightarrow> bool" where
  "sales_supervisors_can_view_assigned_location_stock w sub s \<longleftrightarrow>
     get_current_user_role w sub = ''SALES_SUPERVISOR_ROLE''
     \<and> (\<exists>u \<in> set (users w). users_select_using w sub u
            \<and> clerk_id u = sub \<and> location s \<in> set (locations u))
     \<and> (\<exists>ml \<in> set (master_locations w). locations_select_using w sub ml
            \<and> ml_id ml = m_location_id s \<and> is_active ml)"

definition auditors_can_view_all_stock :: "world \<Rightarrow> string \<Rightarrow> stock_row \<Rightarrow> bool" where
  "auditors_can_view_all_stock w sub s \<longleftrightarrow> get_current_user_role w sub = ''AUDITOR_ROLE''"

text \<open>\<open>FOR ALL\<close>, so it also applies to SELECT.\<close>

definition superadmin_can_manage_stock :: "world \<Rightarrow> string \<Rightarrow> stock_row \<Rightarrow> bool" where
  "superadmin_can_manage_stock w sub s \<longleftrightarrow> get_current_user_role w sub = ''SUPERADMIN_ROLE''"

text \<open>Permissive policies are combined with OR; a row that passes none is not returned.\<close>

definition stock_select_policies :: "(world \<Rightarrow> string \<Rightarrow> stock_row \<Rightarrow> bool) list" where
  "stock_select_policies =
     [superadmin_can_view_all_stock,
      bod_can_view_all_stock,
      sales_managers_can_view_assigned_location_stock,
      sales_supervisors_can_view_assigned_location_stock,
      auditors_can_view_all_stock,
      superadmin_can_manage_stock]"

definition rls_select_stock :: "string \<Rightarrow> world \<Rightarrow> stock_row list" where
  "rls_select_stock sub w =
     filter (\<lambda>s. list_ex (\<lambda>policy. policy w sub s) stock_select_policies) (stock w)"

text \<open>
  The caller's assigned locations, read as the dashboard reads them
  (\<open>.from('users').select('role, locations').eq('clerk_id', user.id)\<close>).
\<close>

definition caller_locations :: "world \<Rightarrow> string \<Rightarrow> string list" where
  "caller_locations w sub =
     (case find (\<lambda>u. clerk_id u = sub) (users w) of
        None \<Rightarrow> []
      | Some u \<Rightarrow> locations u)"

subsection \<open>The rule of the specification, for comparison\<close>

text \<open>
  The specification takes \<open>locations\<close> to hold location ids and speaks of the names
  resolved from them. \<open>text_to_id\<close> reads a stored entry as a decimal id, as the dashboard's
  \<open>Number(loc)\<close> does for a digit string; \<open>resolved_location_names\<close> collects the names
  of the locations so referenced; \<open>claimed_stock_visible\<close> is the stated rule, word for
  word: an unrestricted role, or the row's location name among the resolved names and the
  row's location active.
\<close>

definition digit_of :: "char \<Rightarrow> nat option" where
  "digit_of c = map_of (zip ''0123456789'' [0, 1, 2, 3, 4, 5, 6, 7, 8, 9]) c"

fun digits_value :: "nat \<Rightarrow> string \<Rightarrow> nat option" where
  "digits_value acc [] = Some acc"
| "digits_value acc (c # cs) =
     (case digit_of c of None \<Rightarrow> None | Some d \<Rightarrow> digits_value (10 * acc + d) cs)"

definition text_to_id :: "string \<Rightarrow> int option" where
  "text_to_id t = (if t = [] then None else map_option int (digits_value 0 t))"

definition resolved_location_names :: "world \<Rightarrow> string list \<Rightarrow> string list" where
  "resolved_location_names w ls =
     map ml_name [ml \<leftarrow> master_locations w. \<exists>l \<in> set ls. text_to_id l = Some (ml_id ml)]"

definition claimed_stock_visible :: "world \<Rightarrow> string \<Rightarrow> stock_row \<Rightarrow> bool" where
  "claimed_stock_visible w sub s \<longleftrightarrow>
     get_current_user_role w sub \<in> {''SUPERADMIN_ROLE'', ''BOD_ROLE'', ''AUDITOR_ROLE''}
     \<or> (location s \<in> set (resolved_location_names w (caller_locations w sub))
         \<and> (\<exists>ml \<in> set (master_locations w). ml_id ml = m_location_id s \<and> is_active ml))"

subsection \<open>Sample data\<close>

definition empty_world :: world where
  "empty_world =
     \<lparr>identities = [], users = [], users_seq = 0, master_locations = [], stock = [],
      stock_seq = 0, calls = [], console = []\<rparr>"

definition jakarta :: location_row where
  "jakarta = \<lparr>ml_id = 1, ml_name = ''Jakarta'', ml_value = ''jakarta'', is_active = True\<rparr>"

definition old_depo :: location_row where
  "old_depo = \<lparr>ml_id = 2, ml_name = ''OldDepo'', ml_value = ''old_depo'', is_active = False\<rparr>"

definition jakarta_rice :: stock_row where
  "jakarta_rice =
     \<lparr>stock_id = 1, m_location_id = 1, location = ''Jakarta'', m_product_id = ''RICE-001'',
      product_name = ''Beras Premium IR64'', c_uom_id = 1, uom_name = ''ton'',
      m_product_category_id = 1, product_category_name = ''Beras Premium'',
      weight = 100, sumqtyonhand = 125050, product_type = ''rice''\<rparr>"

definition old_depo_rice :: stock_row where
  "old_depo_rice =
     \<lparr>stock_id = 2, m_location_id = 2, location = ''OldDepo'', m_product_id = ''RICE-002'',
      product_name = ''Beras Medium IR42'', c_uom_id = 1, uom_name = ''ton'',
      m_product_category_id = 2, product_category_name = ''Beras Medium'',
      weight = 100, sumqtyonhand = 89025, product_type = ''rice''\<rparr>"

text \<open>
  Scenario A with the assigned locations stored as ids (\<open>manager_by_id\<close>), the same
  manager with the names stored instead (\<open>manager_by_name\<close>), and a caller without a
  role whose entries hold both the id and the name of Jakarta (\<open>guest\<close>).
\<close>

definition manager_by_id :: user_row where
  "manager_by_id =
     \<lparr>user_id = 1, clerk_id = ''user_a'', name = ''Ani'', role = ''SALES_MANAGER_ROLE'',
      locations = [''1'', ''2'']\<rparr>"

definition manager_by_name :: user_row where
  "manager_by_name =
     \<lparr>user_id = 2, clerk_id = ''user_b'', name = ''Budi'', role = ''SALES_MANAGER_ROLE'',
      locations = [''Jakarta'', ''OldDepo'']\<rparr>"

definition guest :: user_row where
  "guest =
     \<lparr>user_id = 3, clerk_id = ''user_c'', name = ''Citra'', role = ''NO_ROLE'',
      locations = [''1'', ''Jakarta'']\<rparr>"

definition depot_world :: world where
  "depot_world =
     empty_world\<lparr>users := [manager_by_id, manager_by_name, guest], users_seq := 3,
       master_locations := [jakarta, old_depo],
       stock := [jakarta_rice, old_depo_rice], stock_seq := 2\<rparr>"

definition escalation :: user_patch where
  "escalation =
     \<lparr>p_clerk_id = None, p_name = None, p_role = Some ''SUPERADMIN_ROLE'',
      p_locations = Some [''Jakarta'', ''OldDepo'']\<rparr>"

section \<open>Requests of the service-role database client\<close>

text \<open>
  The handlers use the service-role key, which bypasses row-level security. A request
  returns \<open>{data, error}\<close>; it does not throw. Whether the store fails for a reason of its
  own (network, timeout, permissions) is not in the program's hands: each function takes
  that outcome as its first argument, \<open>Some message\<close> for a failure that leaves the table
  as it was. \<open>users.clerk_id\<close> is declared \<open>UNIQUE NOT NULL\<close>, so an insert of a
  \<open>clerk_id\<close> that is already there is refused by the database.
\<close>

definition db_users_insert :: "string option \<Rightarrow> new_user \<Rightarrow> world \<Rightarrow> (string + user_row) \<times> world" where
  "db_users_insert fault nu w =
     (let w1 = called (UsersInsert nu) w
      in case fault of
           Some msg \<Rightarrow> (Inl msg, w1)
         | None \<Rightarrow>
             if list_ex (\<lambda>u. clerk_id u = nu_clerk_id nu) (users w1)
             then (Inl ''duplicate key value violates unique constraint users_clerk_id_key'', w1)
             else (let row = \<lparr>user_id = users_seq w1, clerk_id = nu_clerk_id nu,
                                name = nu_name nu, role = nu_role nu,
                                locations = nu_locations nu\<rparr>
                   in (Inr row, w1\<lparr>users := users w1 @ [row],
                                   users_seq := Suc (users_seq w1)\<rparr>)))"

text \<open>\<open>.update(p).eq('clerk_id', cid)\<close>: no matching row is no error.\<close>

definition db_users_update :: "string option \<Rightarrow> string \<Rightarrow> user_patch \<Rightarrow> world \<Rightarrow> string option \<times> world" where
  "db_users_update fault cid p w =
     (let w1 = called (UsersUpdate cid p) w
      in case fault of
           Some msg \<Rightarrow> (Some msg, w1)
         | None \<Rightarrow>
             (None, w1\<lparr>users := map (\<lambda>u. if clerk_id u = cid then apply_patch p u else u)
                                    (users w1)\<rparr>))"

text \<open>\<open>.delete().eq('clerk_id', cid)\<close>.\<close>

definition db_users_delete :: "string option \<Rightarrow> string \<Rightarrow> world \<Rightarrow> string option \<times> world" where
  "db_users_delete fault cid w =
     (let w1 = called (UsersDelete cid) w
      in case fault of
           Some msg \<Rightarrow> (Some msg, w1)
         | None \<Rightarrow> (None, w1\<lparr>users := [u \<leftarrow> users w1. clerk_id u \<noteq> cid]\<rparr>))"

section \<open>HTTP responses\<close>

datatype json_body =
    PlainText string
  | ErrorBody string
  | ErrorDetails string string
  | Success
  | SuccessMessage string
  | CreatedUser nat string string string "string list"
  | SyncDone nat nat
  | SyncFailed string

record response =
  status :: nat
  body :: json_body

section \<open>The webhook receiver (server.js, POST /api/webhooks/clerk)\<close>

record event_data =
  ev_id :: string
  ev_username :: "string option"
  ev_public_metadata :: "public_metadata option"
  ev_first_name :: "string option"
  ev_last_name :: "string option"

record event =
  ev_type :: string
  ev_data :: event_data

record svix_headers =
  svix_id :: "string option"
  svix_timestamp :: "string option"
  svix_signature :: "string option"

record webhook_request =
  wr_headers :: svix_headers
  wr_body :: string

text \<open>
  What the handler is given from outside: the configured secret, the Svix library's
  \<open>verify\<close> (the parsed event, or \<open>None\<close> where it throws), and the outcome of the one
  database request the handler makes. A verified event carries a \<open>data\<close> object, as
  every Clerk user event does.
\<close>

record webhook_env =
  CLERK_WEBHOOK_SECRET :: "string option"
  svix_verify :: "string \<Rightarrow> string \<Rightarrow> svix_headers \<Rightarrow> event option"
  users_fault :: "string option"

text \<open>\<open>public_metadata?.role || 'NO_ROLE'\<close> and \<open>public_metadata?.locations || []\<close>.\<close>

definition event_role :: "public_metadata option \<Rightarrow> string" where
  "event_role pm =
     (case pm of
        None \<Rightarrow> ''NO_ROLE''
      | Some m \<Rightarrow> (case md_role m of
                     None \<Rightarrow> ''NO_ROLE''
                   | Some r \<Rightarrow> if r = [] then ''NO_ROLE'' else r))"

definition event_locations :: "public_metadata option \<Rightarrow> string list" where
  "event_locations pm =
     (case pm of
        None \<Rightarrow> []
      | Some m \<Rightarrow> (case md_locations m of None \<Rightarrow> [] | Some ls \<Rightarrow> ls))"

text \<open>
  \<open>username || (first_name && last_name ? `${first_name} ${last_name}` : first_name || last_name) || 'User'\<close>
\<close>

definition js_or :: "string option \<Rightarrow> string \<Rightarrow> string" where
  "js_or a b = (case a of None \<Rightarrow> b | Some t \<Rightarrow> if t = [] then b else t)"

definition first_last :: "string option \<Rightarrow> string option \<Rightarrow> string option" where
  "first_last f l =
     (if truthy f \<and> truthy l then Some (js_or f [] @ '' '' @ js_or l [])
      else if truthy f then f else l)"

definition event_name :: "event_data \<Rightarrow> string" where
  "event_name d = js_or (ev_username d) (js_or (first_last (ev_first_name d) (ev_last_name d)) ''User'')"

text \<open>The \<open>switch (eventType)\<close>: one database request, its error logged and dropped.\<close>

definition handle_event :: "string option \<Rightarrow> event \<Rightarrow> world \<Rightarrow> world" where
  "handle_event fault evt w =
     (let d = ev_data evt;
          role = event_role (ev_public_metadata d);
          locations = event_locations (ev_public_metadata d);
          name = event_name d
      in if ev_type evt = ''user.created'' then
           (case db_users_insert fault
                   \<lparr>nu_clerk_id = ev_id d, nu_name = name, nu_role = role,
                    nu_locations = locations\<rparr> w of
              (Inl e, w1) \<Rightarrow> logged (Err ''Error creating user in Supabase:'' e) w1
            | (Inr _, w1) \<Rightarrow> w1)
         else if ev_type evt = ''user.updated'' then
           (case db_users_update fault (ev_id d)
                   \<lparr>p_clerk_id = None, p_name = Some name, p_role = Some role,
                    p_locations = Some locations\<rparr> w of
              (Some e, w1) \<Rightarrow> logged (Err ''Error updating user in Supabase:'' e) w1
            | (None, w1) \<Rightarrow> w1)
         else if ev_type evt = ''user.deleted'' then
           (case db_users_delete fault (ev_id d) w of
              (Some e, w1) \<Rightarrow> logged (Err ''Error deleting user from Supabase:'' e) w1
            | (None, w1) \<Rightarrow> w1)
         else w)"

definition clerk_webhook :: "webhook_env \<Rightarrow> webhook_request \<Rightarrow> world \<Rightarrow> response \<times> world" where
  "clerk_webhook env req w =
     (if \<not> truthy (CLERK_WEBHOOK_SECRET env) then
        (\<lparr>status = 500, body = ErrorBody ''Webhook secret not configured''\<rparr>,
         logged (Err ''CLERK_WEBHOOK_SECRET is not set'' []) w)
      else if \<not> truthy (svix_id (wr_headers req)) \<or> \<not> truthy (svix_timestamp (wr_headers req))
              \<or> \<not> truthy (svix_signature (wr_headers req)) then
        (\<lparr>status = 400, body = ErrorBody ''Missing svix headers''\<rparr>, w)
      else
        (case svix_verify env (js_or (CLERK_WEBHOOK_SECRET env) []) (wr_body req) (wr_headers req) of
           None \<Rightarrow>
             (\<lparr>status = 400, body = ErrorBody ''Invalid signature''\<rparr>,
              logged (Err ''Error verifying webhook:'' []) w)
         | Some evt \<Rightarrow>
             (\<lparr>status = 200, body = Success\<rparr>, handle_event (users_fault env) evt w)))"

text \<open>A request that passes the header check and the signature check, and the event in it.\<close>

definition verified :: "webhook_env \<Rightarrow> webhook_request \<Rightarrow> event \<Rightarrow> bool" where
  "verified env req evt \<longleftrightarrow>
     truthy (CLERK_WEBHOOK_SECRET env)
     \<and> truthy (svix_id (wr_headers req)) \<and> truthy (svix_timestamp (wr_headers req))
     \<and> truthy (svix_signature (wr_headers req))
     \<and> svix_verify env (js_or (CLERK_WEBHOOK_SECRET env) []) (wr_body req) (wr_headers req) = Some evt"

subsection \<open>Sample deliveries\<close>

text \<open>Scenario B: \<open>user.created\<close> for \<open>u1\<close> with role AUDITOR\_ROLE and no locations.\<close>

definition u1_created :: event where
  "u1_created =
     \<lparr>ev_type = ''user.created'',
      ev_data = \<lparr>ev_id = ''u1'', ev_username = Some ''dewi'',
                 ev_public_metadata = Some \<lparr>md_role = Some ''AUDITOR_ROLE'', md_locations = Some []\<rparr>,
                 ev_first_name = None, ev_last_name = None\<rparr>\<rparr>"

definition bare_created :: event where
  "bare_created =
     \<lparr>ev_type = ''user.created'',
      ev_data = \<lparr>ev_id = ''u2'', ev_username = None, ev_public_metadata = None,
                 ev_first_name = Some ''Eko'', ev_last_name = Some ''Putra''\<rparr>\<rparr>"

text \<open>
  A \<open>user.created\<close> without metadata for \<open>u1\<close>, and a \<open>user.updated\<close> without metadata
  for \<open>u9\<close>, an identity the directory has no row for.
\<close>

definition u1_bare_created :: event where
  "u1_bare_created =
     \<lparr>ev_type = ''user.created'',
      ev_data = \<lparr>ev_id = ''u1'', ev_username = Some ''dewi'', ev_public_metadata = None,
                 ev_first_name = None, ev_last_name = None\<rparr>\<rparr>"

definition u9_bare_updated :: event where
  "u9_bare_updated =
     \<lparr>ev_type = ''user.updated'',
      ev_data = \<lparr>ev_id = ''u9'', ev_username = Some ''fajar'', ev_public_metadata = None,
                 ev_first_name = None, ev_last_name = None\<rparr>\<rparr>"

definition signed_request :: webhook_request where
  "signed_request =
     \<lparr>wr_headers = \<lparr>svix_id = Some ''msg_1'', svix_timestamp = Some ''1700000000'',
                    svix_signature = Some ''v1,abc''\<rparr>,
      wr_body = ''{}''\<rparr>"

definition delivering :: "event \<Rightarrow> string option \<Rightarrow> webhook_env" where
  "delivering evt fault =
     \<lparr>CLERK_WEBHOOK_SECRET = Some ''whsec_test'', svix_verify = (\<lambda>secret payload hs. Some evt),
      users_fault = fault\<rparr>"

text \<open>The row for \<open>u1\<close> as the gateway would have written it, with another role.\<close>

definition u1_by_gateway :: user_row where
  "u1_by_gateway =
     \<lparr>user_id = 0, clerk_id = ''u1'', name = ''dewi'', role = ''BOD_ROLE'', locations = []\<rparr>"

definition gateway_first_world :: world where
  "gateway_first_world = empty_world\<lparr>users := [u1_by_gateway], users_seq := 1\<rparr>"

text \<open>An event whose \<open>public_metadata\<close> is absent or carries no \<open>role\<close>, no \<open>locations\<close>.\<close>

definition lacks_role :: "event \<Rightarrow> bool" where
  "lacks_role evt \<longleftrightarrow>
     (case ev_public_metadata (ev_data evt) of None \<Rightarrow> True | Some m \<Rightarrow> md_role m = None)"

definition lacks_locations :: "event \<Rightarrow> bool" where
  "lacks_locations evt \<longleftrightarrow>
     (case ev_public_metadata (ev_data evt) of None \<Rightarrow> True | Some m \<Rightarrow> md_locations m = None)"

text \<open>The rows of the directory kept for one identity.\<close>

definition rows_of :: "string \<Rightarrow> world \<Rightarrow> user_row list" where
  "rows_of cid w = [u \<leftarrow> users w. clerk_id u = cid]"

section \<open>Requests to Clerk\<close>

text \<open>
  A Clerk SDK call resolves or throws. What Clerk answers is given from outside:
  \<open>createUser\<close> either throws or returns the id Clerk chose for the new identity;
  \<open>deleteUser\<close> and \<open>updateUserMetadata\<close> throw when Clerk fails or when it knows no
  identity of that id. A thrown Clerk API error carries an \<open>errors\<close> array, any other
  error only a message.
\<close>

datatype js_error = ClerkAPIError string | PlainError string

fun error_message :: "js_error \<Rightarrow> string" where
  "error_message (ClerkAPIError m) = m"
| "error_message (PlainError m) = m"

definition clerk_createUser ::
  "js_error + string \<Rightarrow> string \<Rightarrow> string \<Rightarrow> public_metadata \<Rightarrow> world \<Rightarrow> (js_error + identity) \<times> world" where
  "clerk_createUser outcome un pw md w =
     (let w1 = called (ClerkCreateUser un pw md) w
      in case outcome of
           Inl e \<Rightarrow> (Inl e, w1)
         | Inr new_id \<Rightarrow>
             (let i = \<lparr>ident_id = new_id, ident_username = un, ident_password = pw,
                       ident_metadata = md\<rparr>
              in (Inr i, w1\<lparr>identities := identities w1 @ [i]\<rparr>)))"

definition clerk_deleteUser :: "js_error option \<Rightarrow> string \<Rightarrow> world \<Rightarrow> js_error option \<times> world" where
  "clerk_deleteUser fault cid w =
     (let w1 = called (ClerkDeleteUser cid) w
      in case fault of
           Some e \<Rightarrow> (Some e, w1)
         | None \<Rightarrow>
             if list_ex (\<lambda>i. ident_id i = cid) (identities w1)
             then (None, w1\<lparr>identities := [i \<leftarrow> identities w1. ident_id i \<noteq> cid]\<rparr>)
             else (Some (ClerkAPIError ''Not Found''), w1))"

text \<open>\<open>updateUserMetadata\<close> merges the given keys into the stored metadata.\<close>

definition merge_metadata :: "public_metadata \<Rightarrow> public_metadata \<Rightarrow> public_metadata" where
  "merge_metadata md old =
     \<lparr>md_role = (case md_role md of None \<Rightarrow> md_role old | Some r \<Rightarrow> Some r),
      md_locations = (case md_locations md of None \<Rightarrow> md_locations old | Some ls \<Rightarrow> Some ls)\<rparr>"

definition clerk_updateUserMetadata ::
  "js_error option \<Rightarrow> string \<Rightarrow> public_metadata \<Rightarrow> world \<Rightarrow> js_error option \<times> world" where
  "clerk_updateUserMetadata fault cid md w =
     (let w1 = called (ClerkUpdateUserMetadata cid md) w
      in case fault of
           Some e \<Rightarrow> (Some e, w1)
         | None \<Rightarrow>
             if list_ex (\<lambda>i. ident_id i = cid) (identities w1)
             then (None, w1\<lparr>identities :=
                     map (\<lambda>i. if ident_id i = cid
                               then i\<lparr>ident_metadata := merge_metadata md (ident_metadata i)\<rparr>
                               else i) (identities w1)\<rparr>)
             else (Some (ClerkAPIError ''Not Found''), w1))"

section \<open>The gateway (supabase/functions/create-user/index.ts)\<close>

text \<open>
  The JSON body of a gateway request; a body that does not parse is \<open>{}\<close>, every field
  absent. \<open>body_role\<close> and \<open>body_locations\<close> are the body's \<open>role\<close> and \<open>locations\<close>.
\<close>

record gateway_request =
  req_method :: string
  action :: "string option"
  username :: "string option"
  password :: "string option"
  body_role :: "string option"
  body_locations :: "string list option"
  clerkId :: "string option"

record gateway_env =
  clerk_create :: "js_error + string"
  clerk_delete_fault :: "js_error option"
  clerk_update_fault :: "js_error option"
  users_write_fault :: "string option"

definition gateway_roles :: "string list" where
  "gateway_roles =
     [''SUPERADMIN_ROLE'', ''BOD_ROLE'', ''SALES_MANAGER_ROLE'', ''SALES_SUPERVISOR_ROLE'',
      ''AUDITOR_ROLE'']"

text \<open>\<open>locations || []\<close>\<close>

definition locations_or_empty :: "string list option \<Rightarrow> string list" where
  "locations_or_empty ls = (case ls of None \<Rightarrow> [] | Some l \<Rightarrow> l)"

definition create_user :: "gateway_env \<Rightarrow> gateway_request \<Rightarrow> world \<Rightarrow> response \<times> world" where
  "create_user env req w =
     (if \<not> truthy (username req) \<or> \<not> truthy (password req) \<or> \<not> truthy (body_role req) then
        (\<lparr>status = 400, body = ErrorBody ''Username, password, and role are required''\<rparr>, w)
      else if length (js_or (password req) []) < 8 then
        (\<lparr>status = 400, body = ErrorBody ''Password must be at least 8 characters long''\<rparr>, w)
      else if js_or (body_role req) [] \<notin> set gateway_roles then
        (\<lparr>status = 400, body = ErrorBody ''Invalid role specified''\<rparr>, w)
      else
        (let un = js_or (username req) []; pw = js_or (password req) [];
             r = js_or (body_role req) []; ls = locations_or_empty (body_locations req)
         in case clerk_createUser (clerk_create env) un pw
                   \<lparr>md_role = Some r, md_locations = Some ls\<rparr> w of
              (Inl e, w1) \<Rightarrow>
                (\<lparr>status = 400,
                  body = ErrorBody (''Failed to create user in Clerk: '' @ error_message e)\<rparr>,
                 logged (Err ''Clerk user creation error:'' (error_message e)) w1)
            | (Inr clerkUser, w1) \<Rightarrow>
                (case db_users_insert (users_write_fault env)
                        \<lparr>nu_clerk_id = ident_id clerkUser, nu_name = un, nu_role = r,
                         nu_locations = ls\<rparr> w1 of
                   (Inl msg, w2) \<Rightarrow>
                     (\<lparr>status = 500,
                       body = ErrorBody (''Failed to create user in database: '' @ msg)\<rparr>,
                      (case clerk_deleteUser (clerk_delete_fault env) (ident_id clerkUser)
                              (logged (Err ''Supabase user creation error:'' msg) w2) of
                         (Some e, w3) \<Rightarrow>
                           logged (Err ''Failed to rollback Clerk user:'' (error_message e)) w3
                       | (None, w3) \<Rightarrow> w3))
                 | (Inr row, w2) \<Rightarrow>
                     (\<lparr>status = 201,
                       body = CreatedUser (user_id row) (ident_id clerkUser) un r ls\<rparr>, w2))))"

definition update_user :: "gateway_env \<Rightarrow> gateway_request \<Rightarrow> world \<Rightarrow> response \<times> world" where
  "update_user env req w =
     (if \<not> truthy (clerkId req) \<or> (\<not> truthy (body_role req) \<and> body_locations req = None) then
        (\<lparr>status = 400,
          body = ErrorBody ''Clerk ID and at least one field (role or locations) are required''\<rparr>, w)
      else if truthy (body_role req) \<and> js_or (body_role req) [] \<notin> set gateway_roles then
        (\<lparr>status = 400, body = ErrorBody ''Invalid role specified''\<rparr>, w)
      else
        (let cid = js_or (clerkId req) [];
             r = (if truthy (body_role req) then body_role req else None)
         in case clerk_updateUserMetadata (clerk_update_fault env) cid
                   \<lparr>md_role = r, md_locations = body_locations req\<rparr> w of
              (Some e, w1) \<Rightarrow>
                (\<lparr>status = 400,
                  body = ErrorBody (''Failed to update user in Clerk: '' @ error_message e)\<rparr>,
                 logged (Err ''Clerk user update error:'' (error_message e)) w1)
            | (None, w1) \<Rightarrow>
                (case db_users_update (users_write_fault env) cid
                        \<lparr>p_clerk_id = None, p_name = None, p_role = r,
                         p_locations = body_locations req\<rparr> w1 of
                   (Some msg, w2) \<Rightarrow>
                     (\<lparr>status = 500,
                       body = ErrorBody (''Failed to update user in database: '' @ msg)\<rparr>,
                      logged (Err ''Supabase user update error:'' msg) w2)
                 | (None, w2) \<Rightarrow>
                     (\<lparr>status = 200, body = SuccessMessage ''User updated successfully''\<rparr>, w2))))"

definition delete_user :: "gateway_env \<Rightarrow> gateway_request \<Rightarrow> world \<Rightarrow> response \<times> world" where
  "delete_user env req w =
     (if \<not> truthy (clerkId req) then
        (\<lparr>status = 400, body = ErrorBody ''Clerk ID is required''\<rparr>, w)
      else
        (let cid = js_or (clerkId req) []
         in case clerk_deleteUser (clerk_delete_fault env) cid w of
              (Some e, w1) \<Rightarrow>
                (\<lparr>status = 400,
                  body = ErrorBody (''Failed to delete user from Clerk: '' @ error_message e)\<rparr>,
                 logged (Err ''Clerk user deletion error:'' (error_message e)) w1)
            | (None, w1) \<Rightarrow>
                (case db_users_delete (users_write_fault env) cid w1 of
                   (Some msg, w2) \<Rightarrow>
                     (\<lparr>status = 500,
                       body = ErrorBody (''Failed to delete user from database: '' @ msg)\<rparr>,
                      logged (Err ''Supabase user deletion error:'' msg) w2)
                 | (None, w2) \<Rightarrow>
                     (\<lparr>status = 200, body = SuccessMessage ''User deleted successfully''\<rparr>, w2))))"

text \<open>The handler given to \<open>Deno.serve\<close>: \<open>body?.action || 'create-user'\<close> picks the branch.\<close>

definition gateway :: "gateway_env \<Rightarrow> gateway_request \<Rightarrow> world \<Rightarrow> response \<times> world" where
  "gateway env req w =
     (if req_method req = ''OPTIONS'' then (\<lparr>status = 200, body = PlainText ''ok''\<rparr>, w)
      else if js_or (action req) ''create-user'' = ''create-user'' then create_user env req w
      else if js_or (action req) ''create-user'' = ''update-user'' then update_user env req w
      else if js_or (action req) ''create-user'' = ''delete-user'' then delete_user env req w
      else (\<lparr>status = 400, body = ErrorBody ''Invalid action''\<rparr>, w))"

section \<open>The Express route POST /api/users/create (server.js)\<close>

text \<open>
  The same sequence behind the Express server. It does not check the role against a list,
  and a throwing \<open>createUser\<close> is caught by the route's outer \<open>catch\<close>.
\<close>

definition api_users_create :: "gateway_env \<Rightarrow> gateway_request \<Rightarrow> world \<Rightarrow> response \<times> world" where
  "api_users_create env req w =
     (if \<not> truthy (username req) \<or> \<not> truthy (password req) \<or> \<not> truthy (body_role req) then
        (\<lparr>status = 400,
          body = ErrorBody ''Missing required fields: username, password, and role are required''\<rparr>,
         w)
      else if length (js_or (password req) []) < 8 then
        (\<lparr>status = 400, body = ErrorBody ''Password must be at least 8 characters long''\<rparr>, w)
      else
        (let un = js_or (username req) []; pw = js_or (password req) [];
             r = js_or (body_role req) []; ls = locations_or_empty (body_locations req)
         in case clerk_createUser (clerk_create env) un pw
                   \<lparr>md_role = Some r, md_locations = Some ls\<rparr> w of
              (Inl e, w1) \<Rightarrow>
                (case e of
                   ClerkAPIError m \<Rightarrow>
                     \<lparr>status = 400, body = ErrorDetails ''Clerk validation error'' m\<rparr>
                 | PlainError m \<Rightarrow>
                     \<lparr>status = 500, body = ErrorDetails ''Internal server error'' m\<rparr>,
                 logged (Err ''Error creating user:'' (error_message e)) w1)
            | (Inr clerkUser, w1) \<Rightarrow>
                (case db_users_insert (users_write_fault env)
                        \<lparr>nu_clerk_id = ident_id clerkUser, nu_name = un, nu_role = r,
                         nu_locations = ls\<rparr> w1 of
                   (Inl msg, w2) \<Rightarrow>
                     (\<lparr>status = 500,
                       body = ErrorDetails ''Failed to create user in database'' msg\<rparr>,
                      (case clerk_deleteUser (clerk_delete_fault env) (ident_id clerkUser)
                              (logged (Err ''Supabase error:'' msg) w2) of
                         (Some e, w3) \<Rightarrow>
                           logged (Err ''Failed to rollback Clerk user:'' (error_message e)) w3
                       | (None, w3) \<Rightarrow> w3))
                 | (Inr row, w2) \<Rightarrow>
                     (\<lparr>status = 201,
                       body = CreatedUser (user_id row) (ident_id clerkUser) (name row) (role row)
                                (locations row)\<rparr>, w2))))"

text \<open>
  A create request that passes the checks both handlers share, with the fields it carries.
\<close>

definition create_fields :: "gateway_request \<Rightarrow> string \<Rightarrow> string \<Rightarrow> string \<Rightarrow> bool" where
  "create_fields req un pw r \<longleftrightarrow>
     username req = Some un \<and> un \<noteq> [] \<and> password req = Some pw \<and> 8 \<le> length pw
     \<and> body_role req = Some r \<and> r \<noteq> []"

text \<open>
  The insert of a row for \<open>cid\<close> fails with message \<open>msg\<close>: the store fails, or a row of that
  \<open>clerk_id\<close> is there already.
\<close>

definition insert_fails :: "gateway_env \<Rightarrow> string \<Rightarrow> world \<Rightarrow> string \<Rightarrow> bool" where
  "insert_fails env cid w msg \<longleftrightarrow>
     users_write_fault env = Some msg
     \<or> (users_write_fault env = None \<and> list_ex (\<lambda>u. clerk_id u = cid) (users w)
         \<and> msg = ''duplicate key value violates unique constraint users_clerk_id_key'')"

subsection \<open>Sample requests\<close>

definition new_manager :: gateway_request where
  "new_manager =
     \<lparr>req_method = ''POST'', action = Some ''create-user'', username = Some ''john_doe'',
      password = Some ''SecurePassword123'', body_role = Some ''SALES_MANAGER_ROLE'',
      body_locations = Some [''Jakarta'', ''Surabaya''], clerkId = None\<rparr>"

definition store_down :: gateway_env where
  "store_down =
     \<lparr>clerk_create = Inr ''user_2x'', clerk_delete_fault = None, clerk_update_fault = None,
      users_write_fault = Some ''connection refused''\<rparr>"

definition rollback_down :: gateway_env where
  "rollback_down =
     \<lparr>clerk_create = Inr ''user_2x'', clerk_delete_fault = Some (PlainError ''timeout''),
      clerk_update_fault = None, users_write_fault = Some ''connection refused''\<rparr>"

definition all_up :: gateway_env where
  "all_up =
     \<lparr>clerk_create = Inr ''user_2x'', clerk_delete_fault = None, clerk_update_fault = None,
      users_write_fault = None\<rparr>"

section \<open>The stock refresh (supabase/functions/sync-stock/index.ts)\<close>

text \<open>
  A record of the feed, with the shape the field mapping of the function reads.
  \<open>fr_id\<close> is \<open>record.id\<close> as the text \<open>toString()\<close> gives; \<open>Weight\<close>, \<open>SumQtyOnHand\<close>
  and \<open>product_type\<close> may be missing (the function supplies defaults with \<open>||\<close>).
\<close>

record ref =
  ref_id :: int
  ref_identifier :: string

record feed_record =
  AD_Org_ID :: ref
  fr_id :: string
  Name :: string
  C_UOM_ID :: ref
  M_Product_Category_ID :: ref
  Weight :: "int option"
  SumQtyOnHand :: "int option"
  fr_product_type :: "string option"

datatype feed_body = NotJson string | NoRecords | Records "feed_record list"

record feed_response =
  feed_ok :: bool
  feed_status_line :: string
  feed_json :: feed_body

text \<open>
  What the run is given from outside: the API key, the answer of the feed (\<open>Inl\<close> where
  \<open>fetch\<close> itself rejects), and whether the store fails on the location lookup for the
  \<open>n\<close>-th record, on the delete, on the insert.
\<close>

record sync_env =
  IDEMPIERE_API_KEY :: "string option"
  feed :: "string + feed_response"
  location_fault :: "nat \<Rightarrow> bool"
  stock_delete_fault :: "string option"
  stock_insert_fault :: "string option"

text \<open>
  \<open>.from('master_locations').select('id, name').eq('id', x).eq('is_active', true).single()\<close>:
  data only when exactly one row matches.
\<close>

definition locations_select_single :: "bool \<Rightarrow> int \<Rightarrow> world \<Rightarrow> location_row option \<times> world" where
  "locations_select_single fault x w =
     (let w1 = called (LocationsSelect x) w
      in if fault then (None, w1)
         else (case [ml \<leftarrow> master_locations w1. ml_id ml = x \<and> is_active ml] of
                 [ml] \<Rightarrow> (Some ml, w1)
               | _ \<Rightarrow> (None, w1)))"

text \<open>\<open>.from('stock').delete().in('product_type', types)\<close>\<close>

definition db_stock_delete :: "string option \<Rightarrow> string list \<Rightarrow> world \<Rightarrow> string option \<times> world" where
  "db_stock_delete fault types w =
     (let w1 = called (StockDelete types) w
      in case fault of
           Some msg \<Rightarrow> (Some msg, w1)
         | None \<Rightarrow> (None, w1\<lparr>stock := [s \<leftarrow> stock w1. product_type s \<notin> set types]\<rparr>))"

definition stored :: "nat \<Rightarrow> new_stock \<Rightarrow> stock_row" where
  "stored k r =
     \<lparr>stock_id = k, m_location_id = ns_m_location_id r, location = ns_location r,
      m_product_id = ns_m_product_id r, product_name = ns_name r, c_uom_id = ns_c_uom_id r,
      uom_name = ns_uom_name r, m_product_category_id = ns_m_product_category_id r,
      product_category_name = ns_product_category_name r, weight = ns_weight r,
      sumqtyonhand = ns_sumqtyonhand r, product_type = ns_product_type r\<rparr>"

text \<open>\<open>.from('stock').insert(rows).select()\<close>: one statement, all rows or none.\<close>

definition db_stock_insert :: "string option \<Rightarrow> new_stock list \<Rightarrow> world \<Rightarrow> (string + stock_row list) \<times> world" where
  "db_stock_insert fault rows w =
     (let w1 = called (StockInsert rows) w
      in case fault of
           Some msg \<Rightarrow> (Inl msg, w1)
         | None \<Rightarrow>
             (let new = map (\<lambda>(k, r). stored k r)
                          (zip [stock_seq w1 ..< stock_seq w1 + length rows] rows)
              in (Inr new, w1\<lparr>stock := stock w1 @ new,
                              stock_seq := stock_seq w1 + length rows\<rparr>)))"

definition stock_record :: "location_row \<Rightarrow> feed_record \<Rightarrow> new_stock" where
  "stock_record locationData record =
     \<lparr>ns_m_location_id = ml_id locationData,
      ns_location = ml_name locationData,
      ns_m_product_id = fr_id record,
      ns_name = Name record,
      ns_c_uom_id = ref_id (C_UOM_ID record),
      ns_uom_name = ref_identifier (C_UOM_ID record),
      ns_m_product_category_id = ref_id (M_Product_Category_ID record),
      ns_product_category_name = ref_identifier (M_Product_Category_ID record),
      ns_weight = (case Weight record of None \<Rightarrow> 0 | Some x \<Rightarrow> x),
      ns_sumqtyonhand = (case SumQtyOnHand record of None \<Rightarrow> 0 | Some x \<Rightarrow> x),
      ns_product_type = js_or (fr_product_type record) ''RAW MATERIAL''\<rparr>"

text \<open>
  The \<open>for (const record of data.records)\<close> loop: \<open>n\<close> counts the records seen,
  \<open>stockRecords\<close> collects the accepted ones, a record whose location does not resolve is
  skipped with a warning.
\<close>

fun transform_records ::
  "(nat \<Rightarrow> bool) \<Rightarrow> nat \<Rightarrow> feed_record list \<Rightarrow> new_stock list \<Rightarrow> world \<Rightarrow> new_stock list \<times> world" where
  "transform_records lf n [] stockRecords w = (stockRecords, w)"
| "transform_records lf n (record # rest) stockRecords w =
     (case locations_select_single (lf n) (ref_id (AD_Org_ID record)) w of
        (None, w1) \<Rightarrow>
          transform_records lf (Suc n) rest stockRecords
            (logged (Warn (''Location ID not found in master_locations: ''
               @ ref_identifier (AD_Org_ID record))) w1)
      | (Some locationData, w1) \<Rightarrow>
          transform_records lf (Suc n) rest (stockRecords @ [stock_record locationData record]) w1)"

definition sync_failed :: "string \<Rightarrow> world \<Rightarrow> response \<times> world" where
  "sync_failed msg w =
     (\<lparr>status = 500, body = SyncFailed msg\<rparr>, logged (Err ''Error synchronizing stock:'' msg) w)"

definition refreshed_types :: "string list" where
  "refreshed_types = [''RAW MATERIAL'', ''FINISHED_GOODS'']"

definition sync_stock :: "sync_env \<Rightarrow> string \<Rightarrow> world \<Rightarrow> response \<times> world" where
  "sync_stock env method w =
     (if method = ''OPTIONS'' then (\<lparr>status = 200, body = PlainText ''ok''\<rparr>, w)
      else if \<not> truthy (IDEMPIERE_API_KEY env) then
        sync_failed ''IDEMPIERE_API_KEY environment variable is not set'' w
      else
        (case feed env of
           Inl msg \<Rightarrow> sync_failed msg (called FeedGet w)
         | Inr resp \<Rightarrow>
             if \<not> feed_ok resp then
               sync_failed (''External API request failed: '' @ feed_status_line resp)
                 (called FeedGet w)
             else
               (case feed_json resp of
                  NotJson msg \<Rightarrow> sync_failed msg (called FeedGet w)
                | NoRecords \<Rightarrow>
                    sync_failed ''Invalid response format: expected records array''
                      (called FeedGet w)
                | Records records \<Rightarrow>
                    (case transform_records (location_fault env) 0 records [] (called FeedGet w) of
                       (stockRecords, w1) \<Rightarrow>
                         if length stockRecords = 0 then
                           sync_failed ''No valid stock records to insert'' w1
                         else
                           (case db_stock_delete (stock_delete_fault env) refreshed_types w1 of
                              (Some msg, w2) \<Rightarrow>
                                sync_failed (''Failed to delete existing stock records: '' @ msg) w2
                            | (None, w2) \<Rightarrow>
                                (case db_stock_insert (stock_insert_fault env) stockRecords w2 of
                                   (Inl msg, w3) \<Rightarrow>
                                     sync_failed (''Failed to insert stock records: '' @ msg) w3
                                 | (Inr insertData, w3) \<Rightarrow>
                                     (\<lparr>status = 200,
                                       body = SyncDone (length stockRecords) (length insertData)\<rparr>,
                                      w3)))))))"

text \<open>
  A run that gets as far as the loop: the key is set and the feed answers 2xx with a
  \<open>records\<close> array.
\<close>

definition feed_delivers :: "sync_env \<Rightarrow> string \<Rightarrow> feed_record list \<Rightarrow> bool" where
  "feed_delivers env method records \<longleftrightarrow>
     method \<noteq> ''OPTIONS'' \<and> truthy (IDEMPIERE_API_KEY env)
     \<and> (\<exists>resp. feed env = Inr resp \<and> feed_ok resp \<and> feed_json resp = Records records)"

text \<open>The records the loop accepts, and the world after the loop.\<close>

definition accepted :: "sync_env \<Rightarrow> feed_record list \<Rightarrow> world \<Rightarrow> new_stock list" where
  "accepted env records w = fst (transform_records (location_fault env) 0 records [] (called FeedGet w))"

definition after_loop :: "sync_env \<Rightarrow> feed_record list \<Rightarrow> world \<Rightarrow> world" where
  "after_loop env records w = snd (transform_records (location_fault env) 0 records [] (called FeedGet w))"

definition is_stock_write :: "call \<Rightarrow> bool" where
  "is_stock_write c = (case c of StockDelete _ \<Rightarrow> True | StockInsert _ \<Rightarrow> True | _ \<Rightarrow> False)"

subsection \<open>Sample feed\<close>

definition feed_row :: "int \<Rightarrow> string \<Rightarrow> feed_record" where
  "feed_row org pid =
     \<lparr>AD_Org_ID = \<lparr>ref_id = org, ref_identifier = ''BPR''\<rparr>, fr_id = pid, Name = ''Gabah Kering'',
      C_UOM_ID = \<lparr>ref_id = 100, ref_identifier = ''kg''\<rparr>,
      M_Product_Category_ID = \<lparr>ref_id = 7, ref_identifier = ''Bahan Baku''\<rparr>,
      Weight = Some 100, SumQtyOnHand = None, fr_product_type = None\<rparr>"

definition feed_of :: "feed_record list \<Rightarrow> sync_env" where
  "feed_of records =
     \<lparr>IDEMPIERE_API_KEY = Some ''key'',
      feed = Inr \<lparr>feed_ok = True, feed_status_line = ''200 OK'', feed_json = Records records\<rparr>,
      location_fault = (\<lambda>n. False), stock_delete_fault = None, stock_insert_fault = None\<rparr>"

definition finished_goods_row :: stock_row where
  "finished_goods_row = old_depo_rice\<lparr>stock_id := 3, product_type := ''FINISHED_GOODS''\<rparr>"

definition raw_material_row :: stock_row where
  "raw_material_row = jakarta_rice\<lparr>stock_id := 4, product_type := ''RAW MATERIAL''\<rparr>"

definition warehouse_world :: world where
  "warehouse_world =
     empty_world\<lparr>master_locations := [jakarta, old_depo],
       stock := [jakarta_rice, finished_goods_row, raw_material_row], stock_seq := 5\<rparr>"

section \<open>Theorems\<close>

subsection \<open>Access policies\<close>

lemma find_clerk_id_unique:
  assumes "distinct (map clerk_id us)" "u \<in> set us" "clerk_id u = sub"
  shows "find (\<lambda>u. clerk_id u = sub) us = Some u"
  using assms
proof (induction us)
  case Nil
  then show ?case by simp
next
  case (Cons a us)
  show ?case
  proof (cases "clerk_id a = sub")
    case True
    with Cons.prems have "a = u" by (auto simp: image_iff)
    with True show ?thesis by simp
  next
    case False
    with Cons show ?thesis by auto
  qed
qed

lemma caller_row_locations:
  assumes "distinct (map clerk_id (users w))"
  shows "(\<exists>u \<in> set (users w). clerk_id u = sub \<and> l \<in> set (locations u))
         \<longleftrightarrow> l \<in> set (caller_locations w sub)"
proof
  assume "\<exists>u \<in> set (users w). clerk_id u = sub \<and> l \<in> set (locations u)"
  then obtain u where u: "u \<in> set (users w)" "clerk_id u = sub" "l \<in> set (locations u)"
    by blast
  from find_clerk_id_unique [OF assms u(1) u(2)] u(3)
  show "l \<in> set (caller_locations w sub)"
    by (simp add: caller_locations_def)
next
  assume l: "l \<in> set (caller_locations w sub)"
  show "\<exists>u \<in> set (users w). clerk_id u = sub \<and> l \<in> set (locations u)"
  proof (cases "find (\<lambda>u. clerk_id u = sub) (users w)")
    case None
    with l show ?thesis by (simp add: caller_locations_def)
  next
    case (Some u)
    with l have "l \<in> set (locations u)" by (simp add: caller_locations_def)
    moreover from Some have "u \<in> set (users w)" "clerk_id u = sub"
      by (auto simp: find_Some_iff)
    ultimately show ?thesis by blast
  qed
qed

lemmas stock_policy_defs =
  stock_select_policies_def superadmin_can_view_all_stock_def bod_can_view_all_stock_def
  sales_managers_can_view_assigned_location_stock_def
  sales_supervisors_can_view_assigned_location_stock_def
  auditors_can_view_all_stock_def superadmin_can_manage_stock_def
  users_select_using_def locations_select_using_def

lemmas depot_defs =
  depot_world_def empty_world_def jakarta_def old_depo_def jakarta_rice_def old_depo_rice_def
  manager_by_id_def manager_by_name_def guest_def

text \<open>
  The SELECT policies on \<open>stock\<close>, put together. With \<open>clerk_id\<close> unique (the column is
  declared UNIQUE), a query returns a row exactly when the caller's role is
  SUPERADMIN\_ROLE, BOD\_ROLE or AUDITOR\_ROLE, or the caller's role is
  SALES\_MANAGER\_ROLE or SALES\_SUPERVISOR\_ROLE, the row's \<open>location\<close> text is one of the
  entries of the caller's \<open>locations\<close> array as stored, and the location the row
  references by \<open>m_location_id\<close> is active.
\<close>

lemma stock_select_visibility:
  assumes "distinct (map clerk_id (users w))"
  shows "s \<in> set (rls_select_stock sub w) \<longleftrightarrow>
         s \<in> set (stock w)
         \<and> (get_current_user_role w sub \<in> {''SUPERADMIN_ROLE'', ''BOD_ROLE'', ''AUDITOR_ROLE''}
            \<or> (get_current_user_role w sub \<in> {''SALES_MANAGER_ROLE'', ''SALES_SUPERVISOR_ROLE''}
                \<and> location s \<in> set (caller_locations w sub)
                \<and> (\<exists>ml \<in> set (master_locations w). ml_id ml = m_location_id s \<and> is_active ml)))"
proof -
  have own: "(\<exists>u \<in> set (users w). users_select_using w sub u
                \<and> clerk_id u = sub \<and> location s \<in> set (locations u))
             \<longleftrightarrow> location s \<in> set (caller_locations w sub)"
    using caller_row_locations [OF assms, of sub "location s"]
    by (auto simp: users_select_using_def)
  have act: "(\<exists>ml \<in> set (master_locations w). locations_select_using w sub ml
                \<and> ml_id ml = m_location_id s \<and> is_active ml)
             \<longleftrightarrow> (\<exists>ml \<in> set (master_locations w). ml_id ml = m_location_id s \<and> is_active ml)"
    by (auto simp: locations_select_using_def)
  have manager: "sales_managers_can_view_assigned_location_stock w sub s \<longleftrightarrow>
      get_current_user_role w sub = ''SALES_MANAGER_ROLE''
      \<and> location s \<in> set (caller_locations w sub)
      \<and> (\<exists>ml \<in> set (master_locations w). ml_id ml = m_location_id s \<and> is_active ml)"
    unfolding sales_managers_can_view_assigned_location_stock_def using own act by simp
  have supervisor: "sales_supervisors_can_view_assigned_location_stock w sub s \<longleftrightarrow>
      get_current_user_role w sub = ''SALES_SUPERVISOR_ROLE''
      \<and> location s \<in> set (caller_locations w sub)
      \<and> (\<exists>ml \<in> set (master_locations w). ml_id ml = m_location_id s \<and> is_active ml)"
    unfolding sales_supervisors_can_view_assigned_location_stock_def using own act by simp
  have "list_ex (\<lambda>policy. policy w sub s) stock_select_policies \<longleftrightarrow>
      get_current_user_role w sub \<in> {''SUPERADMIN_ROLE'', ''BOD_ROLE'', ''AUDITOR_ROLE''}
      \<or> (get_current_user_role w sub \<in> {''SALES_MANAGER_ROLE'', ''SALES_SUPERVISOR_ROLE''}
          \<and> location s \<in> set (caller_locations w sub)
          \<and> (\<exists>ml \<in> set (master_locations w). ml_id ml = m_location_id s \<and> is_active ml))"
    unfolding stock_select_policies_def
    by (simp add: manager supervisor superadmin_can_view_all_stock_def
        bod_can_view_all_stock_def auditors_can_view_all_stock_def
        superadmin_can_manage_stock_def) blast
  then show ?thesis
    by (simp add: rls_select_stock_def)
qed

lemma stock_select_visibility_on_names:
  "distinct (map clerk_id (users depot_world))
   \<and> jakarta_rice \<in> set (rls_select_stock ''user_b'' depot_world)
   \<and> old_depo_rice \<notin> set (rls_select_stock ''user_b'' depot_world)"
  using stock_select_visibility [of depot_world jakarta_rice "''user_b''"]
    stock_select_visibility [of depot_world old_depo_rice "''user_b''"]
  by (simp add: caller_locations_def get_current_user_role_def depot_defs)

text \<open>
  C1 at a failing input. Scenario A as the dashboard stores it: the sales manager's
  \<open>locations\<close> hold the ids \<open>1\<close> and \<open>2\<close>, location 1 is Jakarta and active, location 2
  is OldDepo and inactive. The names resolved from the ids include Jakarta and the Jakarta
  row references an active location, so by the stated rule the manager is shown that row.
  The policies compare the row's location name with the stored ids themselves and return
  no row at all.
\<close>

theorem scenario_a_manager_sees_nothing:
  "get_current_user_role depot_world ''user_a'' = ''SALES_MANAGER_ROLE''
   \<and> caller_locations depot_world ''user_a'' = [''1'', ''2'']
   \<and> resolved_location_names depot_world [''1'', ''2''] = [''Jakarta'', ''OldDepo'']
   \<and> jakarta_rice \<in> set (stock depot_world)
   \<and> claimed_stock_visible depot_world ''user_a'' jakarta_rice
   \<and> rls_select_stock ''user_a'' depot_world = []"
  by (simp add: claimed_stock_visible_def resolved_location_names_def caller_locations_def
      text_to_id_def digit_of_def rls_select_stock_def get_current_user_role_def
      stock_policy_defs depot_defs)

theorem scenario_a_manager_sees_nothing_witness:
  "location jakarta_rice = ''Jakarta''
   \<and> location jakarta_rice \<in> set (resolved_location_names depot_world
         (caller_locations depot_world ''user_a''))
   \<and> jakarta_rice \<notin> set (rls_select_stock ''user_a'' depot_world)"
  using scenario_a_manager_sees_nothing
  by (simp add: jakarta_rice_def)

text \<open>
  C2 at a failing input. Citra, whose stored role is NO\_ROLE, updates her own row with a
  payload that sets \<open>role\<close> to SUPERADMIN\_ROLE and \<open>locations\<close> to two depots. The
  WITH CHECK of the update policy only asks that the new row is still her own, so the
  statement is accepted and both fields are stored as sent.
\<close>

theorem self_escalation_accepted:
  "rls_update_users ''user_c'' ''user_c'' escalation depot_world =
     Inr (depot_world\<lparr>users :=
       [manager_by_id, manager_by_name,
        guest\<lparr>role := ''SUPERADMIN_ROLE'', locations := [''Jakarta'', ''OldDepo'']\<rparr>]\<rparr>)"
  by (simp add: rls_update_users_def users_select_using_def users_update_using_def
      users_update_check_def get_current_user_role_def apply_patch_def escalation_def depot_defs)

theorem self_escalation_accepted_witness:
  "\<exists>w'. rls_update_users ''user_c'' ''user_c'' escalation depot_world = Inr w'
        \<and> get_current_user_role depot_world ''user_c'' = ''NO_ROLE''
        \<and> get_current_user_role w' ''user_c'' = ''SUPERADMIN_ROLE''
        \<and> caller_locations w' ''user_c'' = [''Jakarta'', ''OldDepo'']"
  using self_escalation_accepted
  by (simp add: get_current_user_role_def caller_locations_def depot_defs)

subsection \<open>The webhook receiver\<close>

lemma verified_webhook:
  assumes "verified env req evt"
  shows "clerk_webhook env req w =
           (\<lparr>status = 200, body = Success\<rparr>, handle_event (users_fault env) evt w)"
  using assms by (simp add: verified_def clerk_webhook_def)

lemma insert_refused_duplicate:
  assumes "\<exists>u \<in> set (users w). clerk_id u = nu_clerk_id nu"
  shows "\<exists>e. db_users_insert fault nu w = (Inl e, called (UsersInsert nu) w)"
  using assms
  by (cases fault) (auto simp: db_users_insert_def called_def list_ex_iff Let_def)

lemma insert_performed:
  assumes "\<forall>u \<in> set (users w). clerk_id u \<noteq> nu_clerk_id nu"
  shows "db_users_insert None nu w =
           (Inr \<lparr>user_id = users_seq w, clerk_id = nu_clerk_id nu, name = nu_name nu,
                 role = nu_role nu, locations = nu_locations nu\<rparr>,
            (called (UsersInsert nu) w)
              \<lparr>users := users w @ [\<lparr>user_id = users_seq w, clerk_id = nu_clerk_id nu,
                                     name = nu_name nu, role = nu_role nu,
                                     locations = nu_locations nu\<rparr>],
               users_seq := Suc (users_seq w)\<rparr>)"
  using assms by (simp add: db_users_insert_def called_def list_ex_iff Let_def)

lemma created_event:
  assumes "ev_type evt = ''user.created''"
  shows "handle_event fault evt w =
           (case db_users_insert fault
                   \<lparr>nu_clerk_id = ev_id (ev_data evt), nu_name = event_name (ev_data evt),
                    nu_role = event_role (ev_public_metadata (ev_data evt)),
                    nu_locations = event_locations (ev_public_metadata (ev_data evt))\<rparr> w of
              (Inl e, w1) \<Rightarrow> logged (Err ''Error creating user in Supabase:'' e) w1
            | (Inr _, w1) \<Rightarrow> w1)"
  using assms by (simp add: handle_event_def Let_def)

lemma updated_event:
  assumes "ev_type evt = ''user.updated''"
  shows "handle_event fault evt w =
           (case db_users_update fault (ev_id (ev_data evt))
                   \<lparr>p_clerk_id = None, p_name = Some (event_name (ev_data evt)),
                    p_role = Some (event_role (ev_public_metadata (ev_data evt))),
                    p_locations = Some (event_locations (ev_public_metadata (ev_data evt)))\<rparr> w of
              (Some e, w1) \<Rightarrow> logged (Err ''Error updating user in Supabase:'' e) w1
            | (None, w1) \<Rightarrow> w1)"
  using assms by (simp add: handle_event_def Let_def)

lemma created_on_existing_row:
  assumes "ev_type evt = ''user.created''"
    and "\<exists>u \<in> set (users w). clerk_id u = ev_id (ev_data evt)"
  shows "\<exists>e. handle_event fault evt w =
           logged (Err ''Error creating user in Supabase:'' e)
             (called (UsersInsert
                \<lparr>nu_clerk_id = ev_id (ev_data evt), nu_name = event_name (ev_data evt),
                 nu_role = event_role (ev_public_metadata (ev_data evt)),
                 nu_locations = event_locations (ev_public_metadata (ev_data evt))\<rparr>) w)"
proof -
  let ?nu = "\<lparr>nu_clerk_id = ev_id (ev_data evt), nu_name = event_name (ev_data evt),
              nu_role = event_role (ev_public_metadata (ev_data evt)),
              nu_locations = event_locations (ev_public_metadata (ev_data evt))\<rparr>"
  from assms(2) have "\<exists>u \<in> set (users w). clerk_id u = nu_clerk_id ?nu" by simp
  from insert_refused_duplicate [OF this, of fault]
  obtain e where "db_users_insert fault ?nu w = (Inl e, called (UsersInsert ?nu) w)" by blast
  then have "handle_event fault evt w =
      logged (Err ''Error creating user in Supabase:'' e) (called (UsersInsert ?nu) w)"
    by (simp add: created_event [OF assms(1)])
  then show ?thesis by blast
qed

lemma created_on_new_identity:
  assumes "ev_type evt = ''user.created''"
    and "\<forall>u \<in> set (users w). clerk_id u \<noteq> ev_id (ev_data evt)"
  shows "users (handle_event None evt w) =
           users w @ [\<lparr>user_id = users_seq w, clerk_id = ev_id (ev_data evt),
                        name = event_name (ev_data evt),
                        role = event_role (ev_public_metadata (ev_data evt)),
                        locations = event_locations (ev_public_metadata (ev_data evt))\<rparr>]"
proof -
  let ?nu = "\<lparr>nu_clerk_id = ev_id (ev_data evt), nu_name = event_name (ev_data evt),
              nu_role = event_role (ev_public_metadata (ev_data evt)),
              nu_locations = event_locations (ev_public_metadata (ev_data evt))\<rparr>"
  from assms(2) have "\<forall>u \<in> set (users w). clerk_id u \<noteq> nu_clerk_id ?nu" by simp
  from insert_performed [OF this] show ?thesis
    by (simp add: created_event [OF assms(1)] called_def)
qed

lemmas delivery_defs =
  delivering_def signed_request_def u1_created_def bare_created_def gateway_first_world_def
  u1_by_gateway_def empty_world_def

text \<open>
  C3, as stated, fails on the handler. The row of \<open>u1\<close> is in the directory with role
  BOD\_ROLE (written by the gateway); a verified \<open>user.created\<close> for \<open>u1\<close> with role
  AUDITOR\_ROLE arrives. The handler's plain insert is refused by the unique constraint:
  the row is not updated, and the error is logged.
\<close>

theorem created_on_existing_row_counterexample:
  "verified (delivering u1_created None) signed_request u1_created
   \<and> clerk_webhook (delivering u1_created None) signed_request gateway_first_world =
       (\<lparr>status = 200, body = Success\<rparr>,
        gateway_first_world
          \<lparr>calls := [UsersInsert \<lparr>nu_clerk_id = ''u1'', nu_name = ''dewi'',
                                   nu_role = ''AUDITOR_ROLE'', nu_locations = []\<rparr>],
           console := [Err ''Error creating user in Supabase:''
                         ''duplicate key value violates unique constraint users_clerk_id_key'']\<rparr>)
   \<and> map role (rows_of ''u1'' gateway_first_world) = [''BOD_ROLE'']"
  by (simp add: verified_def clerk_webhook_def handle_event_def db_users_insert_def called_def
      logged_def Let_def event_role_def event_locations_def event_name_def js_or_def rows_of_def
      delivery_defs)

text \<open>
  C3, amended. For a verified \<open>user.created\<close> event: when a row keyed by the identity
  already exists, the handler's insert is refused, the error is logged, the \<open>users\<close> table
  is left exactly as it was (the row is not updated) and the response is still a success;
  and when no row exists and the first delivery's insert goes through, a second delivery of
  the same event leaves the directory with exactly one row for the identity, the one the
  first delivery wrote.
\<close>

theorem created_twice_one_row:
  assumes "verified env req evt" and "verified env' req evt"
    and "ev_type evt = ''user.created''"
  shows "((\<exists>u \<in> set (users w). clerk_id u = ev_id (ev_data evt)) \<longrightarrow>
            fst (clerk_webhook env req w) = \<lparr>status = 200, body = Success\<rparr>
            \<and> users (snd (clerk_webhook env req w)) = users w
            \<and> (\<exists>e. console (snd (clerk_webhook env req w)) =
                     console w @ [Err ''Error creating user in Supabase:'' e]))
       \<and> ((\<forall>u \<in> set (users w). clerk_id u \<noteq> ev_id (ev_data evt)) \<and> users_fault env = None \<longrightarrow>
            rows_of (ev_id (ev_data evt))
              (snd (clerk_webhook env' req (snd (clerk_webhook env req w)))) =
              [\<lparr>user_id = users_seq w, clerk_id = ev_id (ev_data evt),
                name = event_name (ev_data evt),
                role = event_role (ev_public_metadata (ev_data evt)),
                locations = event_locations (ev_public_metadata (ev_data evt))\<rparr>])"
proof (intro conjI impI)
  assume ex: "\<exists>u \<in> set (users w). clerk_id u = ev_id (ev_data evt)"
  from created_on_existing_row [OF assms(3) ex, of "users_fault env"]
  obtain e where e: "handle_event (users_fault env) evt w =
      logged (Err ''Error creating user in Supabase:'' e)
        (called (UsersInsert
           \<lparr>nu_clerk_id = ev_id (ev_data evt), nu_name = event_name (ev_data evt),
            nu_role = event_role (ev_public_metadata (ev_data evt)),
            nu_locations = event_locations (ev_public_metadata (ev_data evt))\<rparr>) w)"
    by blast
  show "fst (clerk_webhook env req w) = \<lparr>status = 200, body = Success\<rparr>"
    by (simp add: verified_webhook [OF assms(1)])
  show "users (snd (clerk_webhook env req w)) = users w"
    by (simp add: verified_webhook [OF assms(1)] e logged_def called_def)
  show "\<exists>e. console (snd (clerk_webhook env req w)) =
          console w @ [Err ''Error creating user in Supabase:'' e]"
    by (simp add: verified_webhook [OF assms(1)] e logged_def called_def)
next
  let ?row = "\<lparr>user_id = users_seq w, clerk_id = ev_id (ev_data evt),
               name = event_name (ev_data evt),
               role = event_role (ev_public_metadata (ev_data evt)),
               locations = event_locations (ev_public_metadata (ev_data evt))\<rparr>"
  let ?w1 = "snd (clerk_webhook env req w)"
  assume new: "(\<forall>u \<in> set (users w). clerk_id u \<noteq> ev_id (ev_data evt)) \<and> users_fault env = None"
  then have first: "users ?w1 = users w @ [?row]"
    using created_on_new_identity [OF assms(3), of w]
    by (simp add: verified_webhook [OF assms(1)])
  then have "\<exists>u \<in> set (users ?w1). clerk_id u = ev_id (ev_data evt)" by simp
  from created_on_existing_row [OF assms(3) this, of "users_fault env'"]
  obtain e where "handle_event (users_fault env') evt ?w1 =
      logged (Err ''Error creating user in Supabase:'' e)
        (called (UsersInsert
           \<lparr>nu_clerk_id = ev_id (ev_data evt), nu_name = event_name (ev_data evt),
            nu_role = event_role (ev_public_metadata (ev_data evt)),
            nu_locations = event_locations (ev_public_metadata (ev_data evt))\<rparr>) ?w1)"
    by blast
  then have "users (snd (clerk_webhook env' req ?w1)) = users ?w1"
    by (simp add: verified_webhook [OF assms(2)] logged_def called_def)
  with first new
  show "rows_of (ev_id (ev_data evt)) (snd (clerk_webhook env' req ?w1)) = [?row]"
    by (simp add: rows_of_def filter_empty_conv)
qed

theorem created_twice_one_row_witness:
  "verified (delivering u1_created None) signed_request u1_created
   \<and> rows_of ''u1''
       (snd (clerk_webhook (delivering u1_created None) signed_request
          (snd (clerk_webhook (delivering u1_created None) signed_request empty_world)))) =
       [\<lparr>user_id = 0, clerk_id = ''u1'', name = ''dewi'', role = ''AUDITOR_ROLE'',
         locations = []\<rparr>]
   \<and> users (snd (clerk_webhook (delivering u1_created None) signed_request gateway_first_world))
       = [u1_by_gateway]"
proof -
  have v: "verified (delivering u1_created None) signed_request u1_created"
    by (simp add: verified_def js_or_def delivery_defs)
  have t: "ev_type u1_created = ''user.created''"
    by (simp add: u1_created_def)
  from created_twice_one_row [OF v v t, of empty_world]
    created_twice_one_row [OF v v t, of gateway_first_world] v
  show ?thesis
    by (simp add: event_role_def event_locations_def event_name_def js_or_def delivery_defs)
qed

lemma write_fault_logged:
  assumes "ev_type evt \<in> {''user.created'', ''user.updated'', ''user.deleted''}"
  shows "users (handle_event (Some e) evt w) = users w
         \<and> (\<exists>l. console (handle_event (Some e) evt w) = console w @ [Err l e])"
  using assms
  by (auto simp: handle_event_def Let_def db_users_insert_def db_users_update_def
      db_users_delete_def called_def logged_def)

text \<open>
  C6. A request that carries the three Svix headers and passes signature verification
  with an event of type \<open>user.created\<close>, \<open>user.updated\<close> or \<open>user.deleted\<close> is answered
  with status 200 and \<open>{success: true}\<close>, whatever the database did; when the database
  request fails, the table is as before and the error is on the console.
\<close>

theorem webhook_always_acknowledges:
  assumes "verified env req evt"
    and "ev_type evt \<in> {''user.created'', ''user.updated'', ''user.deleted''}"
  shows "fst (clerk_webhook env req w) = \<lparr>status = 200, body = Success\<rparr>
       \<and> (\<forall>e. users_fault env = Some e \<longrightarrow>
              users (snd (clerk_webhook env req w)) = users w
              \<and> (\<exists>l. console (snd (clerk_webhook env req w)) = console w @ [Err l e]))"
  using write_fault_logged [OF assms(2)]
  by (simp add: verified_webhook [OF assms(1)])

theorem webhook_always_acknowledges_witness:
  "verified (delivering u1_created (Some ''connection refused'')) signed_request u1_created
   \<and> ev_type u1_created \<in> {''user.created'', ''user.updated'', ''user.deleted''}
   \<and> fst (clerk_webhook (delivering u1_created (Some ''connection refused'')) signed_request
            empty_world) = \<lparr>status = 200, body = Success\<rparr>
   \<and> users (snd (clerk_webhook (delivering u1_created (Some ''connection refused''))
            signed_request empty_world)) = []
   \<and> (\<exists>l. console (snd (clerk_webhook (delivering u1_created (Some ''connection refused''))
            signed_request empty_world)) = [Err l ''connection refused''])"
proof -
  have v: "verified (delivering u1_created (Some ''connection refused'')) signed_request u1_created"
    by (simp add: verified_def js_or_def delivery_defs)
  have t: "ev_type u1_created \<in> {''user.created'', ''user.updated'', ''user.deleted''}"
    by (simp add: u1_created_def)
  from webhook_always_acknowledges [OF v t, of empty_world] v t
  show ?thesis
    by (simp add: delivering_def empty_world_def)
qed

lemma lacks_role_default:
  "lacks_role evt \<Longrightarrow> event_role (ev_public_metadata (ev_data evt)) = ''NO_ROLE''"
  by (simp add: lacks_role_def event_role_def split: option.splits)

lemma lacks_locations_default:
  "lacks_locations evt \<Longrightarrow> event_locations (ev_public_metadata (ev_data evt)) = []"
  by (simp add: lacks_locations_def event_locations_def split: option.splits)

lemma write_request:
  assumes "ev_type evt = ''user.created'' \<or> ev_type evt = ''user.updated''"
  shows "calls (handle_event fault evt w) = calls w @
           [if ev_type evt = ''user.created''
            then UsersInsert
                   \<lparr>nu_clerk_id = ev_id (ev_data evt), nu_name = event_name (ev_data evt),
                    nu_role = event_role (ev_public_metadata (ev_data evt)),
                    nu_locations = event_locations (ev_public_metadata (ev_data evt))\<rparr>
            else UsersUpdate (ev_id (ev_data evt))
                   \<lparr>p_clerk_id = None, p_name = Some (event_name (ev_data evt)),
                    p_role = Some (event_role (ev_public_metadata (ev_data evt))),
                    p_locations = Some (event_locations (ev_public_metadata (ev_data evt)))\<rparr>]"
  using assms
  by (cases fault)
    (auto simp: handle_event_def Let_def db_users_insert_def db_users_update_def called_def
      logged_def)

lemma written_rows:
  assumes "ev_type evt = ''user.created'' \<or> ev_type evt = ''user.updated''"
  shows "users (handle_event fault evt w) =
           (if fault \<noteq> None then users w
            else if ev_type evt = ''user.created'' then
              (if list_ex (\<lambda>u. clerk_id u = ev_id (ev_data evt)) (users w) then users w
               else users w @
                 [\<lparr>user_id = users_seq w, clerk_id = ev_id (ev_data evt),
                   name = event_name (ev_data evt),
                   role = event_role (ev_public_metadata (ev_data evt)),
                   locations = event_locations (ev_public_metadata (ev_data evt))\<rparr>])
            else map (\<lambda>u. if clerk_id u = ev_id (ev_data evt)
                           then u\<lparr>name := event_name (ev_data evt),
                                  role := event_role (ev_public_metadata (ev_data evt)),
                                  locations := event_locations (ev_public_metadata (ev_data evt))\<rparr>
                           else u) (users w))"
  using assms
  by (cases fault)
    (auto simp: handle_event_def Let_def db_users_insert_def db_users_update_def called_def
      logged_def apply_patch_def)

text \<open>
  C10, as stated, fails on the handler. A verified \<open>user.created\<close> without metadata
  arrives for \<open>u1\<close>, whose row holds BOD\_ROLE: the insert is refused and the identity
  stays in the directory with BOD\_ROLE. A verified \<open>user.updated\<close> without metadata
  arrives for \<open>u9\<close>, which has no row: the update matches nothing and no row for \<open>u9\<close>
  is in the directory afterwards.
\<close>

theorem metadata_defaults_counterexample:
  "verified (delivering u1_bare_created None) signed_request u1_bare_created
   \<and> lacks_role u1_bare_created \<and> lacks_locations u1_bare_created
   \<and> map role (rows_of ''u1''
        (snd (clerk_webhook (delivering u1_bare_created None) signed_request
           gateway_first_world))) = [''BOD_ROLE'']
   \<and> verified (delivering u9_bare_updated None) signed_request u9_bare_updated
   \<and> lacks_role u9_bare_updated \<and> lacks_locations u9_bare_updated
   \<and> rows_of ''u9''
        (snd (clerk_webhook (delivering u9_bare_updated None) signed_request
           gateway_first_world)) = []"
  by (simp add: verified_def clerk_webhook_def handle_event_def db_users_insert_def
      db_users_update_def called_def logged_def Let_def lacks_role_def lacks_locations_def
      event_role_def event_locations_def event_name_def js_or_def rows_of_def apply_patch_def
      u1_bare_created_def u9_bare_updated_def delivery_defs)

text \<open>
  C10, amended. For a verified \<open>user.created\<close> or \<open>user.updated\<close> event the handler sends
  one write for the identity (an insert for \<open>created\<close>, an update for \<open>updated\<close>); the role
  in it is NO\_ROLE when \<open>public_metadata\<close> is absent or has no \<open>role\<close>, and the
  locations in it are \<open>[]\<close> when \<open>public_metadata\<close> is absent or has no \<open>locations\<close>.
  What the directory holds afterwards: when the store fails, or when the event is
  \<open>created\<close> and the identity already has a row, the \<open>users\<close> table is as before; a
  \<open>created\<close> for an identity without a row adds exactly one row, carrying the name, role
  and locations of the write; an \<open>updated\<close> sets the name, role and locations of the write
  on every row of the identity and touches no other row (no row, where there is none).
\<close>

theorem webhook_metadata_defaults:
  assumes "verified env req evt"
    and "ev_type evt = ''user.created'' \<or> ev_type evt = ''user.updated''"
  shows "\<exists>nm r ls.
           (lacks_role evt \<longrightarrow> r = ''NO_ROLE'')
           \<and> (lacks_locations evt \<longrightarrow> ls = [])
           \<and> calls (snd (clerk_webhook env req w)) = calls w @
               [if ev_type evt = ''user.created''
                then UsersInsert \<lparr>nu_clerk_id = ev_id (ev_data evt), nu_name = nm, nu_role = r,
                                  nu_locations = ls\<rparr>
                else UsersUpdate (ev_id (ev_data evt))
                       \<lparr>p_clerk_id = None, p_name = Some nm, p_role = Some r,
                        p_locations = Some ls\<rparr>]
           \<and> users (snd (clerk_webhook env req w)) =
               (if users_fault env \<noteq> None then users w
                else if ev_type evt = ''user.created'' then
                  (if list_ex (\<lambda>u. clerk_id u = ev_id (ev_data evt)) (users w) then users w
                   else users w @
                     [\<lparr>user_id = users_seq w, clerk_id = ev_id (ev_data evt), name = nm,
                       role = r, locations = ls\<rparr>])
                else map (\<lambda>u. if clerk_id u = ev_id (ev_data evt)
                               then u\<lparr>name := nm, role := r, locations := ls\<rparr>
                               else u) (users w))"
  apply (rule exI [of _ "event_name (ev_data evt)"])
  apply (rule exI [of _ "event_role (ev_public_metadata (ev_data evt))"])
  apply (rule exI [of _ "event_locations (ev_public_metadata (ev_data evt))"])
  using write_request [OF assms(2), of "users_fault env" w]
    written_rows [OF assms(2), of "users_fault env" w]
  by (simp add: verified_webhook [OF assms(1)] lacks_role_default lacks_locations_default)

theorem webhook_metadata_defaults_witness:
  "verified (delivering bare_created None) signed_request bare_created
   \<and> lacks_role bare_created \<and> lacks_locations bare_created
   \<and> (\<exists>nm. users (snd (clerk_webhook (delivering bare_created None) signed_request
                 gateway_first_world)) =
            [u1_by_gateway,
             \<lparr>user_id = 1, clerk_id = ''u2'', name = nm, role = ''NO_ROLE'', locations = []\<rparr>])"
proof -
  have v: "verified (delivering bare_created None) signed_request bare_created"
    by (simp add: verified_def js_or_def delivery_defs)
  have t: "ev_type bare_created = ''user.created'' \<or> ev_type bare_created = ''user.updated''"
    by (simp add: bare_created_def)
  have l: "lacks_role bare_created" "lacks_locations bare_created"
    by (simp_all add: lacks_role_def lacks_locations_def bare_created_def)
  have e: "ev_type bare_created = ''user.created''" "ev_id (ev_data bare_created) = ''u2''"
    "users_fault (delivering bare_created None) = None"
    by (simp_all add: bare_created_def delivering_def)
  have g: "users gateway_first_world = [u1_by_gateway]" "users_seq gateway_first_world = 1"
    "clerk_id u1_by_gateway = ''u1''"
    by (simp_all add: gateway_first_world_def empty_world_def u1_by_gateway_def)
  from webhook_metadata_defaults [OF v t, of gateway_first_world]
  obtain nm r ls where
    "lacks_role bare_created \<longrightarrow> r = ''NO_ROLE''"
    "lacks_locations bare_created \<longrightarrow> ls = []"
    "users (snd (clerk_webhook (delivering bare_created None) signed_request
        gateway_first_world)) =
       [u1_by_gateway,
        \<lparr>user_id = 1, clerk_id = ''u2'', name = nm, role = r, locations = ls\<rparr>]"
    by (auto simp: e g)
  with l v show ?thesis by auto
qed

subsection \<open>The gateway\<close>

lemma insert_refused:
  assumes "insert_fails env cid w msg" and "users w1 = users w" and "nu_clerk_id nu = cid"
  shows "db_users_insert (users_write_fault env) nu w1 = (Inl msg, called (UsersInsert nu) w1)"
  using assms
  by (auto simp: insert_fails_def db_users_insert_def called_def Let_def)

lemma rollback_delete:
  assumes "cid \<in> ident_id ` set (identities w)"
  shows "clerk_deleteUser fault cid w =
           (case fault of
              Some e \<Rightarrow> (Some e, called (ClerkDeleteUser cid) w)
            | None \<Rightarrow> (None, (called (ClerkDeleteUser cid) w)
                               \<lparr>identities := [i \<leftarrow> identities w. ident_id i \<noteq> cid]\<rparr>))"
  using assms
  by (auto simp: clerk_deleteUser_def called_def Let_def list_ex_iff split: option.splits)

lemma create_user_insert_refused:
  assumes f: "create_fields req un pw r" and r: "r \<in> set gateway_roles"
    and c: "clerk_create env = Inr cid" and i: "insert_fails env cid w msg"
  shows "create_user env req w =
     (\<lparr>status = 500, body = ErrorBody (''Failed to create user in database: '' @ msg)\<rparr>,
      (case clerk_delete_fault env of
         None \<Rightarrow> w\<lparr>identities := [i \<leftarrow> identities w. ident_id i \<noteq> cid]\<rparr>
       | Some e \<Rightarrow>
           w\<lparr>identities := identities w @
                [\<lparr>ident_id = cid, ident_username = un, ident_password = pw,
                  ident_metadata = \<lparr>md_role = Some r,
                    md_locations = Some (locations_or_empty (body_locations req))\<rparr>\<rparr>]\<rparr>)
       \<lparr>calls := calls w @
          [ClerkCreateUser un pw \<lparr>md_role = Some r,
             md_locations = Some (locations_or_empty (body_locations req))\<rparr>,
           UsersInsert \<lparr>nu_clerk_id = cid, nu_name = un, nu_role = r,
             nu_locations = locations_or_empty (body_locations req)\<rparr>,
           ClerkDeleteUser cid],
        console := console w @
          Err ''Supabase user creation error:'' msg #
          (case clerk_delete_fault env of
             None \<Rightarrow> []
           | Some e \<Rightarrow> [Err ''Failed to rollback Clerk user:'' (error_message e)])\<rparr>)"
proof -
  let ?md = "\<lparr>md_role = Some r, md_locations = Some (locations_or_empty (body_locations req))\<rparr>"
  let ?i = "\<lparr>ident_id = cid, ident_username = un, ident_password = pw, ident_metadata = ?md\<rparr>"
  let ?nu = "\<lparr>nu_clerk_id = cid, nu_name = un, nu_role = r,
              nu_locations = locations_or_empty (body_locations req)\<rparr>"
  let ?w1 = "(called (ClerkCreateUser un pw ?md) w)\<lparr>identities := identities w @ [?i]\<rparr>"
  let ?w2 = "logged (Err ''Supabase user creation error:'' msg) (called (UsersInsert ?nu) ?w1)"
  have 1: "clerk_createUser (clerk_create env) un pw ?md w = (Inr ?i, ?w1)"
    by (simp add: clerk_createUser_def c called_def Let_def)
  have 2: "db_users_insert (users_write_fault env) ?nu ?w1 = (Inl msg, called (UsersInsert ?nu) ?w1)"
    by (rule insert_refused [OF i]) (simp_all add: called_def)
  have "cid \<in> ident_id ` set (identities ?w2)"
    by (simp add: logged_def called_def)
  note 3 = rollback_delete [OF this, of "clerk_delete_fault env"]
  from f have "pw \<noteq> []" by (auto simp: create_fields_def)
  with f r show ?thesis
    by (simp add: create_user_def create_fields_def js_or_def Let_def 1 2 3)
      (simp add: logged_def called_def split: option.splits)
qed

lemma api_users_create_insert_refused:
  assumes f: "create_fields req un pw r"
    and c: "clerk_create env = Inr cid" and i: "insert_fails env cid w msg"
  shows "api_users_create env req w =
     (\<lparr>status = 500, body = ErrorDetails ''Failed to create user in database'' msg\<rparr>,
      (case clerk_delete_fault env of
         None \<Rightarrow> w\<lparr>identities := [i \<leftarrow> identities w. ident_id i \<noteq> cid]\<rparr>
       | Some e \<Rightarrow>
           w\<lparr>identities := identities w @
                [\<lparr>ident_id = cid, ident_username = un, ident_password = pw,
                  ident_metadata = \<lparr>md_role = Some r,
                    md_locations = Some (locations_or_empty (body_locations req))\<rparr>\<rparr>]\<rparr>)
       \<lparr>calls := calls w @
          [ClerkCreateUser un pw \<lparr>md_role = Some r,
             md_locations = Some (locations_or_empty (body_locations req))\<rparr>,
           UsersInsert \<lparr>nu_clerk_id = cid, nu_name = un, nu_role = r,
             nu_locations = locations_or_empty (body_locations req)\<rparr>,
           ClerkDeleteUser cid],
        console := console w @
          Err ''Supabase error:'' msg #
          (case clerk_delete_fault env of
             None \<Rightarrow> []
           | Some e \<Rightarrow> [Err ''Failed to rollback Clerk user:'' (error_message e)])\<rparr>)"
proof -
  let ?md = "\<lparr>md_role = Some r, md_locations = Some (locations_or_empty (body_locations req))\<rparr>"
  let ?i = "\<lparr>ident_id = cid, ident_username = un, ident_password = pw, ident_metadata = ?md\<rparr>"
  let ?nu = "\<lparr>nu_clerk_id = cid, nu_name = un, nu_role = r,
              nu_locations = locations_or_empty (body_locations req)\<rparr>"
  let ?w1 = "(called (ClerkCreateUser un pw ?md) w)\<lparr>identities := identities w @ [?i]\<rparr>"
  let ?w2 = "logged (Err ''Supabase error:'' msg) (called (UsersInsert ?nu) ?w1)"
  have 1: "clerk_createUser (clerk_create env) un pw ?md w = (Inr ?i, ?w1)"
    by (simp add: clerk_createUser_def c called_def Let_def)
  have 2: "db_users_insert (users_write_fault env) ?nu ?w1 = (Inl msg, called (UsersInsert ?nu) ?w1)"
    by (rule insert_refused [OF i]) (simp_all add: called_def)
  have "cid \<in> ident_id ` set (identities ?w2)"
    by (simp add: logged_def called_def)
  note 3 = rollback_delete [OF this, of "clerk_delete_fault env"]
  from f have "pw \<noteq> []" by (auto simp: create_fields_def)
  with f show ?thesis
    by (simp add: api_users_create_def create_fields_def js_or_def Let_def 1 2 3)
      (simp add: logged_def called_def split: option.splits)
qed

lemma create_user_clerk_refused:
  assumes f: "create_fields req un pw r" and r: "r \<in> set gateway_roles"
    and c: "clerk_create env = Inl e"
  shows "create_user env req w =
     (\<lparr>status = 400, body = ErrorBody (''Failed to create user in Clerk: '' @ error_message e)\<rparr>,
      w\<lparr>calls := calls w @
           [ClerkCreateUser un pw \<lparr>md_role = Some r,
              md_locations = Some (locations_or_empty (body_locations req))\<rparr>],
        console := console w @ [Err ''Clerk user creation error:'' (error_message e)]\<rparr>)"
proof -
  from f have "pw \<noteq> []" by (auto simp: create_fields_def)
  with f r c show ?thesis
    by (simp add: create_user_def create_fields_def js_or_def Let_def clerk_createUser_def
        logged_def called_def)
qed

lemma api_users_create_clerk_refused:
  assumes f: "create_fields req un pw r" and c: "clerk_create env = Inl e"
  shows "\<exists>resp. status resp \<in> {400, 500} \<and> api_users_create env req w =
     (resp,
      w\<lparr>calls := calls w @
           [ClerkCreateUser un pw \<lparr>md_role = Some r,
              md_locations = Some (locations_or_empty (body_locations req))\<rparr>],
        console := console w @ [Err ''Error creating user:'' (error_message e)]\<rparr>)"
proof -
  from f have "pw \<noteq> []" by (auto simp: create_fields_def)
  with f c show ?thesis
    by (cases e)
      (simp_all add: api_users_create_def create_fields_def js_or_def Let_def
        clerk_createUser_def logged_def called_def)
qed

lemmas request_defs = new_manager_def store_down_def rollback_down_def all_up_def empty_world_def

text \<open>
  C4, as stated, fails on both handlers. Clerk creates the identity \<open>user_2x\<close>, the
  insert into \<open>users\<close> fails, and the compensating \<open>deleteUser\<close> throws: the handler
  catches and logs that, answers 500 with the database error, and the identity stays in
  Clerk.
\<close>

theorem rollback_failure_counterexample:
  "create_fields new_manager ''john_doe'' ''SecurePassword123'' ''SALES_MANAGER_ROLE''
   \<and> clerk_create rollback_down = Inr ''user_2x''
   \<and> insert_fails rollback_down ''user_2x'' empty_world ''connection refused''
   \<and> fst (gateway rollback_down new_manager empty_world) =
       \<lparr>status = 500,
        body = ErrorBody ''Failed to create user in database: connection refused''\<rparr>
   \<and> map ident_id (identities (snd (gateway rollback_down new_manager empty_world))) = [''user_2x'']
   \<and> map ident_id (identities (snd (api_users_create rollback_down new_manager empty_world)))
       = [''user_2x'']
   \<and> users (snd (gateway rollback_down new_manager empty_world)) = []"
  by (simp add: create_fields_def insert_fails_def gateway_def create_user_def
      api_users_create_def clerk_createUser_def db_users_insert_def clerk_deleteUser_def
      called_def logged_def js_or_def locations_or_empty_def gateway_roles_def Let_def
      request_defs)

text \<open>
  C4, amended. For a create request that passes validation, in the gateway's
  \<open>create-user\<close> branch and in the Express route alike: when Clerk creates the identity
  and the insert into \<open>users\<close> fails, the handler answers 500 with the database error,
  leaves \<open>users\<close> as it was, and calls \<open>deleteUser\<close> on the identity it has just created;
  when that call succeeds no identity of that id is left, and when it throws the failure
  is logged and the identity remains. When creating the identity fails, the only request
  made is the \<open>createUser\<close> call: no insert is attempted, and both stores are as before.
\<close>

theorem create_rollback:
  assumes "create_fields req un pw r"
    and "handler = create_user \<and> r \<in> set gateway_roles \<or> handler = api_users_create"
  shows "(clerk_create env = Inr cid \<and> insert_fails env cid w msg \<longrightarrow>
            status (fst (handler env req w)) = 500
            \<and> body (fst (handler env req w)) \<in>
                {ErrorBody (''Failed to create user in database: '' @ msg),
                 ErrorDetails ''Failed to create user in database'' msg}
            \<and> users (snd (handler env req w)) = users w
            \<and> calls (snd (handler env req w)) = calls w @
                [ClerkCreateUser un pw \<lparr>md_role = Some r,
                   md_locations = Some (locations_or_empty (body_locations req))\<rparr>,
                 UsersInsert \<lparr>nu_clerk_id = cid, nu_name = un, nu_role = r,
                   nu_locations = locations_or_empty (body_locations req)\<rparr>,
                 ClerkDeleteUser cid]
            \<and> (clerk_delete_fault env = None \<longrightarrow>
                 identities (snd (handler env req w)) = [i \<leftarrow> identities w. ident_id i \<noteq> cid])
            \<and> (\<forall>e. clerk_delete_fault env = Some e \<longrightarrow>
                 identities (snd (handler env req w)) = identities w @
                   [\<lparr>ident_id = cid, ident_username = un, ident_password = pw,
                     ident_metadata = \<lparr>md_role = Some r,
                       md_locations = Some (locations_or_empty (body_locations req))\<rparr>\<rparr>]
                 \<and> last (console (snd (handler env req w))) =
                     Err ''Failed to rollback Clerk user:'' (error_message e)))
       \<and> (\<forall>e. clerk_create env = Inl e \<longrightarrow>
            status (fst (handler env req w)) \<in> {400, 500}
            \<and> users (snd (handler env req w)) = users w
            \<and> identities (snd (handler env req w)) = identities w
            \<and> calls (snd (handler env req w)) = calls w @
                [ClerkCreateUser un pw \<lparr>md_role = Some r,
                   md_locations = Some (locations_or_empty (body_locations req))\<rparr>])"
  using assms(2)
proof
  assume h: "handler = create_user \<and> r \<in> set gateway_roles"
  show ?thesis
  proof (intro conjI impI allI)
    fix e assume "clerk_create env = Inl e"
    note x = create_user_clerk_refused [OF assms(1) _ this, of w]
    show "status (fst (handler env req w)) \<in> {400, 500}" using h x by simp
    show "users (snd (handler env req w)) = users w" using h x by simp
    show "identities (snd (handler env req w)) = identities w" using h x by simp
    show "calls (snd (handler env req w)) = calls w @
                [ClerkCreateUser un pw \<lparr>md_role = Some r,
                   md_locations = Some (locations_or_empty (body_locations req))\<rparr>]"
      using h x by simp
  qed (use h create_user_insert_refused [OF assms(1), of env cid w msg] in
        \<open>simp_all split: option.splits\<close>)
next
  assume h: "handler = api_users_create"
  show ?thesis
  proof (intro conjI impI allI)
    fix e assume "clerk_create env = Inl e"
    from api_users_create_clerk_refused [OF assms(1) this, of w]
    obtain resp where x: "status resp \<in> {400, 500}" "api_users_create env req w =
     (resp,
      w\<lparr>calls := calls w @
           [ClerkCreateUser un pw \<lparr>md_role = Some r,
              md_locations = Some (locations_or_empty (body_locations req))\<rparr>],
        console := console w @ [Err ''Error creating user:'' (error_message e)]\<rparr>)"
      by blast
    show "status (fst (handler env req w)) \<in> {400, 500}" using h x by simp
    show "users (snd (handler env req w)) = users w" using h x by simp
    show "identities (snd (handler env req w)) = identities w" using h x by simp
    show "calls (snd (handler env req w)) = calls w @
                [ClerkCreateUser un pw \<lparr>md_role = Some r,
                   md_locations = Some (locations_or_empty (body_locations req))\<rparr>]"
      using h x by simp
  qed (use h api_users_create_insert_refused [OF assms(1), of env cid w msg] in
        \<open>simp_all split: option.splits\<close>)
qed

theorem create_rollback_witness:
  "create_fields new_manager ''john_doe'' ''SecurePassword123'' ''SALES_MANAGER_ROLE''
   \<and> clerk_create store_down = Inr ''user_2x''
   \<and> insert_fails store_down ''user_2x'' empty_world ''connection refused''
   \<and> status (fst (create_user store_down new_manager empty_world)) = 500
   \<and> identities (snd (create_user store_down new_manager empty_world)) = []
   \<and> users (snd (create_user store_down new_manager empty_world)) = []
   \<and> calls (snd (create_user store_down new_manager empty_world)) =
       [ClerkCreateUser ''john_doe'' ''SecurePassword123''
          \<lparr>md_role = Some ''SALES_MANAGER_ROLE'', md_locations = Some [''Jakarta'', ''Surabaya'']\<rparr>,
        UsersInsert \<lparr>nu_clerk_id = ''user_2x'', nu_name = ''john_doe'',
          nu_role = ''SALES_MANAGER_ROLE'', nu_locations = [''Jakarta'', ''Surabaya'']\<rparr>,
        ClerkDeleteUser ''user_2x'']"
proof -
  have f: "create_fields new_manager ''john_doe'' ''SecurePassword123'' ''SALES_MANAGER_ROLE''"
    by (simp add: create_fields_def new_manager_def)
  have h: "create_user = create_user \<and> ''SALES_MANAGER_ROLE'' \<in> set gateway_roles
           \<or> create_user = api_users_create"
    by (simp add: gateway_roles_def)
  have c: "clerk_create store_down = Inr ''user_2x''"
    and d: "clerk_delete_fault store_down = None"
    by (simp_all add: store_down_def)
  have i: "insert_fails store_down ''user_2x'' empty_world ''connection refused''"
    by (simp add: insert_fails_def store_down_def)
  have l: "locations_or_empty (body_locations new_manager) = [''Jakarta'', ''Surabaya'']"
    by (simp add: locations_or_empty_def new_manager_def)
  from create_rollback [OF f h, of store_down "''user_2x''" empty_world "''connection refused''"]
    f c d i l
  show ?thesis
    by (simp add: empty_world_def)
qed

text \<open>
  C7. A \<open>create-user\<close> request to the gateway whose password has fewer than 8 characters
  is answered with status 400 and an error body, and nothing else happens: no request to
  Clerk or to the database is made and both stores are as before. The Express route
  behaves the same.
\<close>

theorem short_password_rejected:
  assumes "req_method req \<noteq> ''OPTIONS''"
    and "js_or (action req) ''create-user'' = ''create-user''"
    and "password req = Some pw" and "length pw < 8"
  shows "(\<exists>msg. gateway env req w = (\<lparr>status = 400, body = ErrorBody msg\<rparr>, w))
       \<and> (\<exists>msg. api_users_create env req w = (\<lparr>status = 400, body = ErrorBody msg\<rparr>, w))"
  using assms
  by (cases "pw = []")
    (simp_all add: gateway_def create_user_def api_users_create_def js_or_def)

theorem short_password_rejected_witness:
  "req_method (new_manager\<lparr>password := Some ''short''\<rparr>) \<noteq> ''OPTIONS''
   \<and> length ''short'' < 8
   \<and> (\<exists>msg. gateway all_up (new_manager\<lparr>password := Some ''short''\<rparr>) depot_world =
         (\<lparr>status = 400, body = ErrorBody msg\<rparr>, depot_world))"
  using short_password_rejected
    [of "new_manager\<lparr>password := Some ''short''\<rparr>" "''short''" all_up depot_world]
  by (simp add: new_manager_def js_or_def)

text \<open>
  C8. A \<open>create-user\<close> request to the gateway whose role is NO\_ROLE, or any other text
  that is not one of the five role names of the gateway's list, is answered with status
  400 and an error body; no request to Clerk or to the database is made, so neither an
  identity nor a user row is created.
\<close>

theorem role_outside_list_rejected:
  assumes "req_method req \<noteq> ''OPTIONS''"
    and "js_or (action req) ''create-user'' = ''create-user''"
    and "body_role req = Some r" and "r \<notin> set gateway_roles"
  shows "\<exists>msg. gateway env req w = (\<lparr>status = 400, body = ErrorBody msg\<rparr>, w)"
  using assms
  by (cases "r = []")
    (simp_all add: gateway_def create_user_def js_or_def)

theorem role_outside_list_rejected_witness:
  "req_method (new_manager\<lparr>body_role := Some ''NO_ROLE''\<rparr>) \<noteq> ''OPTIONS''
   \<and> ''NO_ROLE'' \<notin> set gateway_roles
   \<and> (\<exists>msg. gateway all_up (new_manager\<lparr>body_role := Some ''NO_ROLE''\<rparr>) depot_world =
         (\<lparr>status = 400, body = ErrorBody msg\<rparr>, depot_world))"
  using role_outside_list_rejected
    [of "new_manager\<lparr>body_role := Some ''NO_ROLE''\<rparr>" "''NO_ROLE''" all_up depot_world]
  by (simp add: new_manager_def js_or_def gateway_roles_def)

text \<open>
  The Express route makes no such check: the same request with role NO\_ROLE creates the
  identity and the row.
\<close>

lemma express_route_accepts_any_role:
  "fst (api_users_create all_up (new_manager\<lparr>body_role := Some ''NO_ROLE''\<rparr>) empty_world) =
     \<lparr>status = 201,
      body = CreatedUser 0 ''user_2x'' ''john_doe'' ''NO_ROLE'' [''Jakarta'', ''Surabaya'']\<rparr>"
  by (simp add: api_users_create_def clerk_createUser_def db_users_insert_def called_def
      js_or_def locations_or_empty_def Let_def request_defs)

subsection \<open>The stock refresh\<close>

lemma lookup_keeps_tables:
  "stock (snd (locations_select_single f x w)) = stock w
   \<and> stock_seq (snd (locations_select_single f x w)) = stock_seq w
   \<and> master_locations (snd (locations_select_single f x w)) = master_locations w
   \<and> calls (snd (locations_select_single f x w)) = calls w @ [LocationsSelect x]"
  by (simp add: locations_select_single_def called_def Let_def split: list.splits)

lemma loop_keeps_tables:
  "stock (snd (transform_records lf n records acc w)) = stock w
   \<and> stock_seq (snd (transform_records lf n records acc w)) = stock_seq w
   \<and> master_locations (snd (transform_records lf n records acc w)) = master_locations w
   \<and> calls (snd (transform_records lf n records acc w)) =
       calls w @ map (\<lambda>r. LocationsSelect (ref_id (AD_Org_ID r))) records"
proof (induction records arbitrary: n acc w)
  case Nil
  then show ?case by simp
next
  case (Cons r records)
  obtain res w1 where l: "locations_select_single (lf n) (ref_id (AD_Org_ID r)) w = (res, w1)"
    by (cases "locations_select_single (lf n) (ref_id (AD_Org_ID r)) w")
  with lookup_keeps_tables [of "lf n" "ref_id (AD_Org_ID r)" w]
  have k: "stock w1 = stock w" "stock_seq w1 = stock_seq w"
    "master_locations w1 = master_locations w"
    "calls w1 = calls w @ [LocationsSelect (ref_id (AD_Org_ID r))]"
    by simp_all
  show ?case
  proof (cases res)
    case None
    with l k Cons.IH [of "Suc n" acc
        "logged (Warn (''Location ID not found in master_locations: ''
               @ ref_identifier (AD_Org_ID r))) w1"]
    show ?thesis by (simp add: logged_def)
  next
    case (Some ml)
    with l k Cons.IH [of "Suc n" "acc @ [stock_record ml r]" w1]
    show ?thesis by simp
  qed
qed

text \<open>Records whose location has no active row in \<open>master_locations\<close> are all skipped.\<close>

lemma unresolved_skipped:
  assumes "\<forall>r \<in> set records. \<not> (\<exists>ml \<in> set (master_locations w).
              ml_id ml = ref_id (AD_Org_ID r) \<and> is_active ml)"
  shows "fst (transform_records lf n records acc w) = acc"
  using assms
proof (induction records arbitrary: n acc w)
  case Nil
  then show ?case by simp
next
  case (Cons r records)
  from Cons.prems
  have "[ml \<leftarrow> master_locations w. ml_id ml = ref_id (AD_Org_ID r) \<and> is_active ml] = []"
    by (auto simp: filter_empty_conv)
  then have l: "locations_select_single (lf n) (ref_id (AD_Org_ID r)) w =
      (None, called (LocationsSelect (ref_id (AD_Org_ID r))) w)"
    by (simp add: locations_select_single_def called_def Let_def)
  let ?w = "logged (Warn (''Location ID not found in master_locations: ''
               @ ref_identifier (AD_Org_ID r))) (called (LocationsSelect (ref_id (AD_Org_ID r))) w)"
  have "master_locations ?w = master_locations w"
    by (simp add: logged_def called_def)
  with Cons.prems have "\<forall>r \<in> set records. \<not> (\<exists>ml \<in> set (master_locations ?w).
              ml_id ml = ref_id (AD_Org_ID r) \<and> is_active ml)"
    by simp
  from Cons.IH [OF this] l show ?case by simp
qed

lemma run_reaches_loop:
  assumes "feed_delivers env method records"
  shows "sync_stock env method w =
     (if accepted env records w = [] then
        sync_failed ''No valid stock records to insert'' (after_loop env records w)
      else
        (case db_stock_delete (stock_delete_fault env) refreshed_types (after_loop env records w) of
           (Some msg, w2) \<Rightarrow>
             sync_failed (''Failed to delete existing stock records: '' @ msg) w2
         | (None, w2) \<Rightarrow>
             (case db_stock_insert (stock_insert_fault env) (accepted env records w) w2 of
                (Inl msg, w3) \<Rightarrow>
                  sync_failed (''Failed to insert stock records: '' @ msg) w3
              | (Inr insertData, w3) \<Rightarrow>
                  (\<lparr>status = 200,
                    body = SyncDone (length (accepted env records w)) (length insertData)\<rparr>,
                   w3))))"
proof -
  obtain acc w1 where t:
    "transform_records (location_fault env) 0 records [] (called FeedGet w) = (acc, w1)"
    by (cases "transform_records (location_fault env) 0 records [] (called FeedGet w)")
  then have a: "accepted env records w = acc" "after_loop env records w = w1"
    by (simp_all add: accepted_def after_loop_def)
  from assms obtain resp where
    "method \<noteq> ''OPTIONS''" "truthy (IDEMPIERE_API_KEY env)"
    "feed env = Inr resp" "feed_ok resp" "feed_json resp = Records records"
    by (auto simp: feed_delivers_def)
  then show ?thesis
    unfolding a by (simp add: sync_stock_def t)
qed

lemmas feed_defs =
  feed_of_def feed_row_def warehouse_world_def empty_world_def jakarta_def old_depo_def
  jakarta_rice_def old_depo_rice_def finished_goods_row_def raw_material_row_def

lemmas loop_defs =
  accepted_def locations_select_single_def stock_record_def called_def logged_def js_or_def
  Let_def

lemma aborted_before_loop:
  assumes "method \<noteq> ''OPTIONS''" and "\<not> (\<exists>records. feed_delivers env method records)"
  shows "\<exists>msg. sync_stock env method w = sync_failed msg w
             \<or> sync_stock env method w = sync_failed msg (called FeedGet w)"
proof (cases "truthy (IDEMPIERE_API_KEY env)")
  case False
  with assms(1) show ?thesis by (auto simp: sync_stock_def)
next
  case True
  show ?thesis
  proof (cases "feed env")
    case (Inl msg)
    with assms(1) True show ?thesis by (auto simp: sync_stock_def)
  next
    case (Inr resp)
    show ?thesis
    proof (cases "feed_ok resp")
      case False
      with assms(1) True Inr show ?thesis by (auto simp: sync_stock_def)
    next
      case ok: True
      show ?thesis
      proof (cases "feed_json resp")
        case (NotJson msg)
        with assms(1) True Inr ok show ?thesis by (auto simp: sync_stock_def)
      next
        case NoRecords
        with assms(1) True Inr ok show ?thesis by (auto simp: sync_stock_def)
      next
        case (Records records)
        with assms(1) True Inr ok have "feed_delivers env method records"
          by (simp add: feed_delivers_def)
        with assms(2) show ?thesis by blast
      qed
    qed
  qed
qed

text \<open>
  C5. A run in which the loop accepts no record (the feed delivers an empty \<open>records\<close>
  array, or no record's location resolves to an active row of \<open>master_locations\<close>, or the
  run does not get as far as the loop at all) ends with status 500: no delete and no insert
  is sent to \<open>stock\<close>, and the table is exactly as before. When the feed did deliver, the
  error is ``No valid stock records to insert'' and the only requests made are the feed
  request and the location lookups.
\<close>

theorem zero_accepted_aborts:
  assumes "method \<noteq> ''OPTIONS''"
    and "\<forall>records. feed_delivers env method records \<longrightarrow> accepted env records w = []"
  shows "status (fst (sync_stock env method w)) = 500
       \<and> (\<exists>msg. body (fst (sync_stock env method w)) = SyncFailed msg)
       \<and> stock (snd (sync_stock env method w)) = stock w
       \<and> stock_seq (snd (sync_stock env method w)) = stock_seq w
       \<and> filter is_stock_write (calls (snd (sync_stock env method w)))
           = filter is_stock_write (calls w)
       \<and> (\<forall>records. feed_delivers env method records \<longrightarrow>
             body (fst (sync_stock env method w)) = SyncFailed ''No valid stock records to insert''
             \<and> calls (snd (sync_stock env method w)) =
                 calls w @ FeedGet # map (\<lambda>r. LocationsSelect (ref_id (AD_Org_ID r))) records)"
proof (cases "\<exists>records. feed_delivers env method records")
  case True
  then obtain records where d: "feed_delivers env method records" by blast
  with assms(2) have a: "accepted env records w = []" by simp
  have u: "records' = records" if "feed_delivers env method records'" for records'
    using that d by (auto simp: feed_delivers_def)
  have n: "filter is_stock_write (map (\<lambda>r. LocationsSelect (ref_id (AD_Org_ID r))) records) = []"
    by (simp add: filter_empty_conv is_stock_write_def)
  have f: "\<not> is_stock_write FeedGet"
    by (simp add: is_stock_write_def)
  from a loop_keeps_tables [of "location_fault env" 0 records "[]" "called FeedGet w"]
  have "fst (sync_stock env method w) =
           \<lparr>status = 500, body = SyncFailed ''No valid stock records to insert''\<rparr>
       \<and> stock (snd (sync_stock env method w)) = stock w
       \<and> stock_seq (snd (sync_stock env method w)) = stock_seq w
       \<and> calls (snd (sync_stock env method w)) =
           calls w @ FeedGet # map (\<lambda>r. LocationsSelect (ref_id (AD_Org_ID r))) records"
    by (simp add: run_reaches_loop [OF d] sync_failed_def logged_def after_loop_def called_def)
  then show ?thesis
    using u by (auto simp: n f)
next
  case False
  from aborted_before_loop [OF assms(1) False, of w]
  obtain msg where "sync_stock env method w = sync_failed msg w
      \<or> sync_stock env method w = sync_failed msg (called FeedGet w)"
    by blast
  then show ?thesis
    using False
    by (auto simp: sync_failed_def logged_def called_def is_stock_write_def)
qed


theorem zero_accepted_aborts_witness:
  "feed_delivers (feed_of [feed_row 2 ''1002'', feed_row 9 ''1003'']) ''POST''
     [feed_row 2 ''1002'', feed_row 9 ''1003'']
   \<and> accepted (feed_of [feed_row 2 ''1002'', feed_row 9 ''1003''])
       [feed_row 2 ''1002'', feed_row 9 ''1003''] warehouse_world = []
   \<and> status (fst (sync_stock (feed_of [feed_row 2 ''1002'', feed_row 9 ''1003'']) ''POST''
       warehouse_world)) = 500
   \<and> stock (snd (sync_stock (feed_of [feed_row 2 ''1002'', feed_row 9 ''1003'']) ''POST''
       warehouse_world)) = [jakarta_rice, finished_goods_row, raw_material_row]
   \<and> calls (snd (sync_stock (feed_of [feed_row 2 ''1002'', feed_row 9 ''1003'']) ''POST''
       warehouse_world)) = [FeedGet, LocationsSelect 2, LocationsSelect 9]"
proof -
  let ?rs = "[feed_row 2 ''1002'', feed_row 9 ''1003'']"
  have m: "''POST'' \<noteq> ''OPTIONS''"
    by simp
  have d: "feed_delivers (feed_of ?rs) ''POST'' ?rs"
    by (simp add: feed_delivers_def feed_of_def)
  have a: "accepted (feed_of ?rs) ?rs warehouse_world = []"
    by (simp add: loop_defs feed_defs)
  have u: "records = ?rs" if "feed_delivers (feed_of ?rs) ''POST'' records" for records
    using that by (simp add: feed_delivers_def feed_of_def)
  have z: "\<forall>records. feed_delivers (feed_of ?rs) ''POST'' records \<longrightarrow>
             accepted (feed_of ?rs) records warehouse_world = []"
    using u a by blast
  have w: "stock warehouse_world = [jakarta_rice, finished_goods_row, raw_material_row]"
    "calls warehouse_world = []"
    by (simp_all add: warehouse_world_def empty_world_def)
  have r: "map (\<lambda>r. LocationsSelect (ref_id (AD_Org_ID r))) ?rs
           = [LocationsSelect 2, LocationsSelect 9]"
    by (simp add: feed_row_def)
  from zero_accepted_aborts [OF m z] d a show ?thesis
    by (simp only: w r append_Nil simp_thms)
qed

text \<open>
  C9. When the loop accepts at least one record, the next request after the lookups is
  one delete on \<open>stock\<close> for product type RAW MATERIAL or FINISHED\_GOODS, whatever the
  types of the accepted records, and the insert of the accepted records is sent only after
  that delete has succeeded. Once the delete is carried out, the table holds the former
  rows of every other product type, unchanged and in order, followed by the rows inserted
  (none when the insert fails); when the store refuses the delete the run stops with the
  table as it was. In every case each former row of another product type is still there.
\<close>

theorem refresh_replaces_both_types:
  assumes "feed_delivers env method records" and "accepted env records w \<noteq> []"
  shows "calls (snd (sync_stock env method w)) =
           calls (after_loop env records w)
           @ StockDelete [''RAW MATERIAL'', ''FINISHED_GOODS'']
           # (case stock_delete_fault env of
                None \<Rightarrow> [StockInsert (accepted env records w)]
              | Some msg \<Rightarrow> [])
       \<and> stock (snd (sync_stock env method w)) =
           (case stock_delete_fault env of
              Some msg \<Rightarrow> stock w
            | None \<Rightarrow>
                [s \<leftarrow> stock w. product_type s \<notin> {''RAW MATERIAL'', ''FINISHED_GOODS''}]
                @ (case stock_insert_fault env of
                     Some msg \<Rightarrow> []
                   | None \<Rightarrow>
                       map (\<lambda>(k, r). stored k r)
                         (zip [stock_seq w ..< stock_seq w + length (accepted env records w)]
                            (accepted env records w))))
       \<and> (\<forall>s \<in> set (stock w).
             product_type s \<notin> {''RAW MATERIAL'', ''FINISHED_GOODS''} \<longrightarrow>
             s \<in> set (stock (snd (sync_stock env method w))))"
proof -
  note k = loop_keeps_tables [of "location_fault env" 0 records "[]" "called FeedGet w",
      folded after_loop_def]
  have k': "stock (after_loop env records w) = stock w"
    "stock_seq (after_loop env records w) = stock_seq w"
    using k by (simp_all add: called_def)
  have c: "calls (snd (sync_stock env method w)) =
           calls (after_loop env records w)
           @ StockDelete [''RAW MATERIAL'', ''FINISHED_GOODS'']
           # (case stock_delete_fault env of
                None \<Rightarrow> [StockInsert (accepted env records w)]
              | Some msg \<Rightarrow> [])"
    using assms(2)
    by (simp add: run_reaches_loop [OF assms(1)] db_stock_delete_def db_stock_insert_def
        refreshed_types_def sync_failed_def logged_def called_def Let_def
        split: option.splits)
  have s: "stock (snd (sync_stock env method w)) =
           (case stock_delete_fault env of
              Some msg \<Rightarrow> stock w
            | None \<Rightarrow>
                [s \<leftarrow> stock w. product_type s \<notin> {''RAW MATERIAL'', ''FINISHED_GOODS''}]
                @ (case stock_insert_fault env of
                     Some msg \<Rightarrow> []
                   | None \<Rightarrow>
                       map (\<lambda>(k, r). stored k r)
                         (zip [stock_seq w ..< stock_seq w + length (accepted env records w)]
                            (accepted env records w))))"
    using assms(2) k'
    by (simp add: run_reaches_loop [OF assms(1)] db_stock_delete_def db_stock_insert_def
        refreshed_types_def sync_failed_def logged_def called_def Let_def
        split: option.splits)
  have "\<forall>s \<in> set (stock w).
             product_type s \<notin> {''RAW MATERIAL'', ''FINISHED_GOODS''} \<longrightarrow>
             s \<in> set (stock (snd (sync_stock env method w)))"
    unfolding s by (auto split: option.splits)
  with c s show ?thesis by blast
qed

theorem refresh_replaces_both_types_witness:
  "feed_delivers (feed_of [feed_row 1 ''1001'']) ''POST'' [feed_row 1 ''1001'']
   \<and> map ns_product_type (accepted (feed_of [feed_row 1 ''1001'']) [feed_row 1 ''1001'']
        warehouse_world) = [''RAW MATERIAL'']
   \<and> map product_type (stock warehouse_world) = [''rice'', ''FINISHED_GOODS'', ''RAW MATERIAL'']
   \<and> map stock_id (stock warehouse_world) = [1, 3, 4]
   \<and> map stock_id (stock (snd (sync_stock (feed_of [feed_row 1 ''1001'']) ''POST''
        warehouse_world))) = [1, 5]
   \<and> jakarta_rice \<in> set (stock (snd (sync_stock (feed_of [feed_row 1 ''1001'']) ''POST''
        warehouse_world)))"
proof -
  let ?rs = "[feed_row 1 ''1001'']"
  have d: "feed_delivers (feed_of ?rs) ''POST'' ?rs"
    by (simp add: feed_delivers_def feed_of_def)
  have a: "accepted (feed_of ?rs) ?rs warehouse_world =
      [stock_record jakarta (feed_row 1 ''1001'')]"
    by (simp add: loop_defs feed_defs)
  then have n: "accepted (feed_of ?rs) ?rs warehouse_world \<noteq> []"
    by simp
  have f: "stock_delete_fault (feed_of ?rs) = None" "stock_insert_fault (feed_of ?rs) = None"
    by (simp_all add: feed_of_def)
  have w: "stock warehouse_world = [jakarta_rice, finished_goods_row, raw_material_row]"
    "stock_seq warehouse_world = 5"
    by (simp_all add: warehouse_world_def empty_world_def)
  have t: "product_type jakarta_rice = ''rice''"
    "product_type finished_goods_row = ''FINISHED_GOODS''"
    "product_type raw_material_row = ''RAW MATERIAL''"
    "stock_id jakarta_rice = 1" "stock_id finished_goods_row = 3" "stock_id raw_material_row = 4"
    by (simp_all add: jakarta_rice_def finished_goods_row_def raw_material_row_def
        old_depo_rice_def)
  from refresh_replaces_both_types [OF d n]
  have "stock (snd (sync_stock (feed_of ?rs) ''POST'' warehouse_world)) =
      [jakarta_rice, stored 5 (stock_record jakarta (feed_row 1 ''1001''))]"
    by (simp add: a f w t upt_rec)
  with d a show ?thesis
    by (simp add: w t stored_def stock_record_def js_or_def feed_row_def)
qed

end
